theory Spec2Isabelle
  imports Complex_Main "HOL-Library.List_Lexorder" "HOL-Library.Char_ord" "HOL-Library.Multiset"
begin

section \<open>Conventions of the embedding\<close>

text \<open>
  The analytics jobs are Python. Their \<^verbatim>\<open>float\<close> values are modelled by \<^typ>\<open>real\<close>
  (exact arithmetic: no rounding, no NaN, no infinity), their \<^verbatim>\<open>int\<close> values by
  \<^typ>\<open>int\<close>, their \<^verbatim>\<open>str\<close> values by \<^typ>\<open>string\<close>, compared lexicographically by
  character code as Python does. A database value that may be \<^verbatim>\<open>NULL\<close> is an
  \<^typ>\<open>'a option\<close>. A \<^verbatim>\<open>datetime\<close> is a number of seconds, a \<^verbatim>\<open>timedelta\<close> a difference
  of such numbers. The rows a query returns are an argument of the function that runs the
  query.
\<close>

datatype error = ValueError string | ZeroDivisionError

text \<open>Python's \<^verbatim>\<open>a / b\<close> on floats raises \<^verbatim>\<open>ZeroDivisionError\<close> when \<^verbatim>\<open>b\<close> is zero.\<close>

definition truediv :: "real \<Rightarrow> real \<Rightarrow> error + real" where
  "truediv a b = (if b = 0 then Inl ZeroDivisionError else Inr (a / b))"

text \<open>
  \<^verbatim>\<open>sorted(xs, key=f, reverse=True)\<close>: descending by key, and stable (elements with equal
  keys keep the order they had in \<^verbatim>\<open>xs\<close>).
\<close>

fun insort_reverse :: "('a \<Rightarrow> 'k::linorder) \<Rightarrow> 'a \<Rightarrow> 'a list \<Rightarrow> 'a list" where
  "insort_reverse f x [] = [x]"
| "insort_reverse f x (y # ys) =
     (if f y \<le> f x then x # y # ys else y # insort_reverse f x ys)"

definition sorted_reverse :: "('a \<Rightarrow> 'k::linorder) \<Rightarrow> 'a list \<Rightarrow> 'a list" where
  "sorted_reverse f xs = foldr (insort_reverse f) xs []"

text \<open>The mean of a non-empty array or column (\<^verbatim>\<open>np.mean\<close>, pandas \<^verbatim>\<open>mean\<close>).\<close>

definition mean_of :: "real list \<Rightarrow> real" where
  "mean_of xs = sum_list xs / of_nat (length xs)"

section \<open>anomaly\_detector.py\<close>

subsection \<open>The univariate check\<close>

text \<open>
  The description of an anomaly is the text
  \<^verbatim>\<open>f"{metric} is {abs(value - mean):.1f} points {direction} normal ({mean:.1f})"\<close>.
  The model keeps the four values that are formatted, not the formatted text.
\<close>

record description =
  desc_metric :: string
  desc_points :: real
  desc_direction :: string
  desc_normal :: real

record anomaly =
  timestamp :: real
  asset_id :: string
  metric :: string
  val :: real
  expected_value :: real
  deviation :: real
  severity :: string
  confidence :: real
  description :: description

text \<open>The table \<^verbatim>\<open>self.z_threshold\<close>, in the order the dictionary is written.\<close>

definition z_threshold :: "(string \<times> real) list" where
  "z_threshold = [(''LOW'', 2.0), (''MEDIUM'', 2.5), (''HIGH'', 3.0), (''CRITICAL'', 3.5)]"

text \<open>
  The loop that determines the severity: the levels by descending threshold, the first
  one whose threshold the z-score reaches; \<^term>\<open>None\<close> when the loop ends without
  \<^verbatim>\<open>break\<close>.
\<close>

fun first_level :: "real \<Rightarrow> (string \<times> real) list \<Rightarrow> string option" where
  "first_level z_score [] = None"
| "first_level z_score ((level, threshold) # rest) =
     (if z_score \<ge> threshold then Some level else first_level z_score rest)"

definition determine_severity :: "real \<Rightarrow> string option" where
  "determine_severity z_score = first_level z_score (sorted_reverse snd z_threshold)"

text \<open>
  \<^verbatim>\<open>_check_anomaly\<close>. The standard normal distribution function \<^verbatim>\<open>stats.norm.cdf\<close>
  is SciPy's, not this repository's: it is the parameter \<open>norm_cdf\<close>. A severity is a
  non-empty string, so \<^verbatim>\<open>not severity\<close> holds only for \<^verbatim>\<open>None\<close>.
\<close>

definition check_anomaly ::
  "(real \<Rightarrow> real) \<Rightarrow> real \<Rightarrow> real \<Rightarrow> real option \<Rightarrow> string \<Rightarrow> real \<Rightarrow> string
     \<Rightarrow> error + anomaly option" where
  "check_anomaly norm_cdf value mean std metric_name ts asset =
     (case std of
        None \<Rightarrow> Inr None
      | Some s \<Rightarrow>
          if s = 0 then Inr None
          else (case truediv (value - mean) s of
                  Inl e \<Rightarrow> Inl e
                | Inr q \<Rightarrow>
                    (let z_score = \<bar>q\<bar> in
                     case determine_severity z_score of
                       None \<Rightarrow> Inr None
                     | Some level \<Rightarrow>
                         Inr (Some \<lparr>timestamp = ts, asset_id = asset, metric = metric_name,
                           val = value, expected_value = mean, deviation = z_score,
                           severity = level,
                           confidence = min 99.9 (norm_cdf z_score * 100),
                           description = \<lparr>desc_metric = metric_name,
                             desc_points = \<bar>value - mean\<bar>,
                             desc_direction = (if value < mean then ''below'' else ''above''),
                             desc_normal = mean\<rparr>\<rparr>))))"

subsection \<open>The multivariate detector\<close>

text \<open>
  A row of the telemetry query. The query keeps the rows whose temperature, pressure and
  vibration are not \<^verbatim>\<open>NULL\<close>; \<^verbatim>\<open>oee\<close> and \<^verbatim>\<open>current\<close> may be.
\<close>

record telemetry_row =
  t_timestamp :: real
  t_asset_id :: string
  t_oee :: "real option"
  temperature :: real
  pressure :: real
  vibration :: real
  current :: "real option"

text \<open>
  \<^verbatim>\<open>data[features]\<close> for
  \<^verbatim>\<open>features = ['oee', 'temperature', 'pressure', 'vibration', 'current']\<close>.
\<close>

definition feature_values :: "telemetry_row \<Rightarrow> real option list" where
  "feature_values row =
     [t_oee row, Some (temperature row), Some (pressure row), Some (vibration row),
      current row]"

definition nth_column :: "'a list list \<Rightarrow> nat \<Rightarrow> 'a list" where
  "nth_column rows j = map (\<lambda>r. r ! j) rows"

text \<open>The mean of a column skips the missing values; a column of none has no mean.\<close>

definition column_mean :: "real option list \<Rightarrow> real option" where
  "column_mean col =
     (let present = concat (map (\<lambda>v. case v of None \<Rightarrow> [] | Some x \<Rightarrow> [x]) col)
      in if present = [] then None else Some (mean_of present))"

text \<open>\<^verbatim>\<open>fillna\<close>: a missing value becomes the mean of its column.\<close>

definition fillna :: "real option list list \<Rightarrow> real option list \<Rightarrow> real option list list" where
  "fillna rows means =
     map (\<lambda>r. map2 (\<lambda>v m. case v of None \<Rightarrow> m | Some x \<Rightarrow> Some x) r means) rows"

text \<open>The sample covariance of two columns (pandas \<^verbatim>\<open>cov\<close>, \<open>n - 1\<close> in the divisor).\<close>

definition covariance :: "real list \<Rightarrow> real list \<Rightarrow> real" where
  "covariance a b =
     sum_list (map2 (\<lambda>u v. (u - mean_of a) * (v - mean_of b)) a b)
       / (of_nat (length a) - 1)"

definition cov_matrix :: "real list list \<Rightarrow> real list list" where
  "cov_matrix X =
     map (\<lambda>i. map (\<lambda>j. covariance (nth_column X i) (nth_column X j)) [0..<5]) [0..<5]"

definition dot :: "real list \<Rightarrow> real list \<Rightarrow> real" where
  "dot a b = sum_list (map2 (*) a b)"

text \<open>A vector times a matrix (\<^verbatim>\<open>diff.T @ inv_cov\<close>).\<close>

definition vec_mat :: "real list \<Rightarrow> real list list \<Rightarrow> real list" where
  "vec_mat v M = map (\<lambda>j. dot v (nth_column M j)) [0..<length v]"

record observation =
  o_timestamp :: real
  o_asset_id :: string
  o_type :: string
  distance :: real
  o_severity :: string
  o_description :: string
  parameters :: "(string \<times> real option) list"

text \<open>
  The loop over the rows: \<open>mean\<close> are the column means, \<open>inv_cov\<close> the inverted
  covariance, each row comes with its filled feature vector. \<^verbatim>\<open>np.sqrt\<close> of a negative
  number is NaN, which is not greater than the threshold; \<^const>\<open>sqrt\<close> of a negative
  number is negative, which is not either.
\<close>

fun scan_rows ::
  "real list \<Rightarrow> real list list \<Rightarrow> (telemetry_row \<times> real list) list \<Rightarrow> observation list" where
  "scan_rows mean inv_cov [] = []"
| "scan_rows mean inv_cov ((row, x) # rest) =
     (let diff = map2 (-) x mean;
          m_distance = sqrt (dot (vec_mat diff inv_cov) diff)
      in (if m_distance > 15.09
          then [\<lparr>o_timestamp = t_timestamp row, o_asset_id = t_asset_id row,
                 o_type = ''MULTIVARIATE'', distance = m_distance,
                 o_severity = (if m_distance > 20 then ''HIGH'' else ''MEDIUM''),
                 o_description = ''Multiple parameters showing unusual combination'',
                 parameters = [(''oee'', t_oee row),
                               (''temperature'', Some (temperature row)),
                               (''pressure'', Some (pressure row)),
                               (''vibration'', Some (vibration row))]\<rparr>]
          else [])
         @ scan_rows mean inv_cov rest)"

text \<open>
  \<^verbatim>\<open>detect_multivariate_anomalies\<close>: \<open>data\<close> is what \<^verbatim>\<open>cursor.fetchall()\<close> returns.
  \<^verbatim>\<open>np.linalg.pinv\<close> is NumPy's: it is the parameter \<open>pinv\<close>, \<^term>\<open>None\<close> when it
  raises. A column with no value at all stays NaN after \<^verbatim>\<open>fillna\<close>; then the inversion
  raises or every distance is NaN, and in both cases the result is empty.
\<close>

definition detect_multivariate_anomalies ::
  "(real list list \<Rightarrow> real list list option) \<Rightarrow> telemetry_row list \<Rightarrow> observation list" where
  "detect_multivariate_anomalies pinv data =
     (if length data < 30 then []
      else
        (let selected = map feature_values data;
             filled = fillna selected
                        (map (\<lambda>j. column_mean (nth_column selected j)) [0..<5])
         in case those (map those filled) of
              None \<Rightarrow> []
            | Some X \<Rightarrow>
                (let mean = map (\<lambda>j. mean_of (nth_column X j)) [0..<5]
                 in case pinv (cov_matrix X) of
                      None \<Rightarrow> []
                    | Some inv_cov \<Rightarrow> scan_rows mean inv_cov (zip data X))))"

text \<open>
  A line of 256 rows: 255 steady ones a minute apart, then one whose current is 11
  instead of 10.
\<close>

definition steady_row :: "nat \<Rightarrow> telemetry_row" where
  "steady_row i =
     \<lparr>t_timestamp = 60 * of_nat i, t_asset_id = ''A1'', t_oee = Some 80, temperature = 70,
       pressure = 5, vibration = 1, current = Some 10\<rparr>"

definition surge_row :: telemetry_row where
  "surge_row =
     \<lparr>t_timestamp = 15300, t_asset_id = ''A1'', t_oee = Some 80, temperature = 70,
       pressure = 5, vibration = 1, current = Some 11\<rparr>"

definition surge_data :: "telemetry_row list" where
  "surge_data = map steady_row [0..<255] @ [surge_row]"

text \<open>
  The pseudo-inverse of a diagonal matrix: the reciprocal of each entry that is not
  zero. The covariance of \<^const>\<open>surge_data\<close> is diagonal.
\<close>

definition reciprocal_pinv :: "real list list \<Rightarrow> real list list option" where
  "reciprocal_pinv M = Some (map (map (\<lambda>v. if v = 0 then 0 else 1 / v)) M)"

text \<open>
  The covariance matrix of \<^const>\<open>surge_data\<close> and its pseudo-inverse, and the matrix
  product to state that it is one.
\<close>

definition surge_covariance :: "real list list" where
  "surge_covariance =
     [[0, 0, 0, 0, 0], [0, 0, 0, 0, 0], [0, 0, 0, 0, 0], [0, 0, 0, 0, 0],
      [0, 0, 0, 0, 1 / 256]]"

definition surge_inverse :: "real list list" where
  "surge_inverse =
     [[0, 0, 0, 0, 0], [0, 0, 0, 0, 0], [0, 0, 0, 0, 0], [0, 0, 0, 0, 0],
      [0, 0, 0, 0, 256]]"

definition mat_mul :: "real list list \<Rightarrow> real list list \<Rightarrow> real list list" where
  "mat_mul A B = map (\<lambda>row. vec_mat row B) A"

subsection \<open>Alerts\<close>

text \<open>
  An alert is a dictionary whose keys depend on its \<^verbatim>\<open>type\<close>; the constructor is the
  \<^verbatim>\<open>type\<close>. \<^verbatim>\<open>metrics\<close> is \<^verbatim>\<open>list(set(...))\<close>, whose order Python does not fix: it is a
  set here. Timestamps stay numbers (\<^verbatim>\<open>isoformat\<close> is not modelled).
\<close>

datatype alert =
  MULTIPLE_ANOMALIES (alert_asset_id: string) (alert_severity: string) (alert_count: nat)
    (alert_metrics: "string set") (alert_action: string) (alert_timestamp: real)
| SINGLE_ANOMALY (alert_asset_id: string) (alert_severity: string) (alert_metric: string)
    (alert_value: real) (alert_expected: real) (alert_action: string) (alert_timestamp: real)

text \<open>The table \<^verbatim>\<open>actions\<close> of \<^verbatim>\<open>_get_recommended_action\<close>.\<close>

definition actions :: "(string \<times> (string \<times> string) list) list" where
  "actions =
     [(''OEE'', [(''HIGH'', ''Check production line immediately''),
                 (''CRITICAL'', ''Stop production and investigate'')]),
      (''Availability'', [(''HIGH'', ''Check for equipment failures''),
                          (''CRITICAL'', ''Initiate maintenance protocol'')]),
      (''Performance'', [(''HIGH'', ''Review cycle times and minor stops''),
                         (''CRITICAL'', ''Check for major speed losses'')]),
      (''Quality'', [(''HIGH'', ''Increase quality inspections''),
                     (''CRITICAL'', ''Quarantine recent production'')])]"

definition get_recommended_action :: "anomaly \<Rightarrow> string" where
  "get_recommended_action a =
     (case map_of (case map_of actions (metric a) of None \<Rightarrow> [] | Some d \<Rightarrow> d) (severity a) of
        None \<Rightarrow> ''Monitor situation closely''
      | Some act \<Rightarrow> act)"

text \<open>
  \<^verbatim>\<open>grouped[key].append(anomaly)\<close> on a \<^verbatim>\<open>defaultdict(list)\<close>: a dictionary keeps its keys
  in the order of their first insertion.
\<close>

fun group_append :: "'k \<Rightarrow> 'v \<Rightarrow> ('k \<times> 'v list) list \<Rightarrow> ('k \<times> 'v list) list" where
  "group_append key x [] = [(key, [x])]"
| "group_append key x ((k, g) # rest) =
     (if k = key then (k, g @ [x]) # rest else (k, g) # group_append key x rest)"

definition group_anomalies :: "anomaly list \<Rightarrow> ((string \<times> string) \<times> anomaly list) list" where
  "group_anomalies anomalies =
     fold (\<lambda>a grouped. group_append (asset_id a, severity a) a grouped) anomalies []"

text \<open>The alerts one group contributes (the body of the loop over \<^verbatim>\<open>grouped.items()\<close>).\<close>

fun group_alerts :: "(string \<times> string) \<times> anomaly list \<Rightarrow> alert list" where
  "group_alerts ((asset, sev), grp) =
     (if length grp \<ge> 3 then
        [MULTIPLE_ANOMALIES asset sev (length grp) (set (map metric grp))
           ''Immediate investigation required''
           (fold max (map timestamp (tl grp)) (timestamp (hd grp)))]
      else if sev \<in> set [''HIGH'', ''CRITICAL''] then
        map (\<lambda>a. SINGLE_ANOMALY asset sev (metric a) (val a) (expected_value a)
                    (get_recommended_action a) (timestamp a)) grp
      else [])"

definition generate_alerts :: "anomaly list \<Rightarrow> alert list" where
  "generate_alerts anomalies =
     sorted_reverse alert_severity (concat (map group_alerts (group_anomalies anomalies)))"

text \<open>
  The intended order of the severities, \<open>LOW < MEDIUM < HIGH < CRITICAL\<close>, as a rank;
  no anomaly ranks below all of them.
\<close>

definition severity_rank :: "string \<Rightarrow> nat" where
  "severity_rank s =
     (if s = ''LOW'' then 1 else if s = ''MEDIUM'' then 2
      else if s = ''HIGH'' then 3 else if s = ''CRITICAL'' then 4 else 0)"

definition anomaly_rank :: "error + anomaly option \<Rightarrow> nat" where
  "anomaly_rank r = (case r of Inr (Some x) \<Rightarrow> severity_rank (severity x) | _ \<Rightarrow> 0)"

text \<open>The rank of the band a z-score falls in, as the specification lists the bands.\<close>

definition band_rank :: "real \<Rightarrow> nat" where
  "band_rank z =
     (if 3.5 \<le> z then 4 else if 3 \<le> z then 3 else if 2.5 \<le> z then 2
      else if 2 \<le> z then 1 else 0)"

text \<open>Most severe first: the ranks never increase along the list.\<close>

fun most_severe_first :: "alert list \<Rightarrow> bool" where
  "most_severe_first [] = True"
| "most_severe_first [a] = True"
| "most_severe_first (a # b # rest) =
     (severity_rank (alert_severity b) \<le> severity_rank (alert_severity a)
      \<and> most_severe_first (b # rest))"

section \<open>oee\_calculator.py\<close>

subsection \<open>OEE of an asset\<close>

text \<open>The row of the aggregate query; every aggregate may be \<^verbatim>\<open>NULL\<close>.\<close>

record aggregate_row =
  row_asset_id :: string
  row_line_id :: string
  total_runtime :: "real option"
  total_downtime :: "real option"
  total_good :: "int option"
  total_reject :: "int option"
  avg_temp :: "real option"
  avg_vibration :: "real option"

record oee_metrics =
  m_timestamp :: real
  m_asset_id :: string
  m_line_id :: string
  oee :: real
  availability :: real
  performance :: real
  quality :: real
  runtime :: real
  downtime :: real
  total_count :: int
  good_count :: int
  reject_count :: int

text \<open>\<^verbatim>\<open>x or 0\<close>: zero when \<^verbatim>\<open>x\<close> is \<^verbatim>\<open>None\<close> or zero, else \<^verbatim>\<open>x\<close>.\<close>

definition or_zero :: "'a::zero option \<Rightarrow> 'a" where
  "or_zero x = (case x of None \<Rightarrow> 0 | Some v \<Rightarrow> if v = 0 then 0 else v)"

text \<open>
  The cache of ideal cycle times. Redis stores text; this module writes the text of a
  float and reads it back with \<^verbatim>\<open>float\<close>, so the model stores the number. A stored
  entry is a non-empty text, hence true in \<^verbatim>\<open>if cached_value\<close>. The expiry of 3600
  seconds is not modelled.
\<close>

type_synonym cache = "string \<rightharpoonup> real"

definition get_ideal_cycle_time :: "cache \<Rightarrow> string \<Rightarrow> real \<times> cache" where
  "get_ideal_cycle_time redis asset =
     (let cache_key = ''ideal_cycle_time:'' @ asset in
      case redis cache_key of
        Some cached_value \<Rightarrow> (cached_value, redis)
      | None \<Rightarrow> (1.0, redis(cache_key \<mapsto> 1.0)))"

text \<open>
  \<^verbatim>\<open>calculate_oee\<close>: \<open>data\<close> is what \<^verbatim>\<open>cursor.fetchone()\<close> returns, \<open>now\<close> is
  \<^verbatim>\<open>datetime.now()\<close>. The result is the raised error or the metrics, with the cache as
  the call leaves it.
\<close>

definition calculate_oee ::
  "cache \<Rightarrow> aggregate_row option \<Rightarrow> string \<Rightarrow> real \<Rightarrow> real \<Rightarrow> real
     \<Rightarrow> (error + oee_metrics) \<times> cache" where
  "calculate_oee redis data asset start_time end_time now =
     (case data of
        None \<Rightarrow> (Inl (ValueError (''No data found for asset '' @ asset)), redis)
      | Some d \<Rightarrow>
          (let planned_time = (end_time - start_time) / 60;
               rt = or_zero (total_runtime d);
               dt = or_zero (total_downtime d);
               good = or_zero (total_good d);
               reject = or_zero (total_reject d);
               total = good + reject
           in case (if planned_time > 0
                    then (case truediv rt planned_time of
                            Inl e \<Rightarrow> Inl e | Inr q \<Rightarrow> Inr (q * 100))
                    else Inr 0) of
                Inl e \<Rightarrow> (Inl e, redis)
              | Inr avail \<Rightarrow>
                  (case get_ideal_cycle_time redis asset of
                     (ideal_cycle_time, redis') \<Rightarrow>
                       (case (if rt > 0
                              then (case truediv (of_int total * ideal_cycle_time) rt of
                                      Inl e \<Rightarrow> Inl e | Inr q \<Rightarrow> Inr (q * 100))
                              else Inr 0) of
                          Inl e \<Rightarrow> (Inl e, redis')
                        | Inr perf \<Rightarrow>
                            (case (if total > 0
                                   then (case truediv (of_int good) (of_int total) of
                                           Inl e \<Rightarrow> Inl e | Inr q \<Rightarrow> Inr (q * 100))
                                   else Inr 0) of
                               Inl e \<Rightarrow> (Inl e, redis')
                             | Inr qual \<Rightarrow>
                                 (let oee_raw = (avail * perf * qual) / 10000
                                  in (Inr \<lparr>m_timestamp = now, m_asset_id = asset,
                                        m_line_id = row_line_id d,
                                        oee = min 100 (max 0 oee_raw),
                                        availability = min 100 (max 0 avail),
                                        performance = min 100 (max 0 perf),
                                        quality = min 100 (max 0 qual),
                                        runtime = rt, downtime = dt,
                                        total_count = total, good_count = good,
                                        reject_count = reject\<rparr>, redis')))))))"

text \<open>
  The three components before the clamp, as the source computes them (the guards
  exclude a zero divisor).
\<close>

definition planned_minutes :: "real \<Rightarrow> real \<Rightarrow> real" where
  "planned_minutes start_time end_time = (end_time - start_time) / 60"

definition availability_raw :: "aggregate_row \<Rightarrow> real \<Rightarrow> real \<Rightarrow> real" where
  "availability_raw d start_time end_time =
     (if planned_minutes start_time end_time > 0
      then or_zero (total_runtime d) / planned_minutes start_time end_time * 100 else 0)"

definition performance_raw :: "aggregate_row \<Rightarrow> real \<Rightarrow> real" where
  "performance_raw d ideal_cycle_time =
     (if or_zero (total_runtime d) > 0
      then of_int (or_zero (total_good d) + or_zero (total_reject d)) * ideal_cycle_time
             / or_zero (total_runtime d) * 100
      else 0)"

definition quality_raw :: "aggregate_row \<Rightarrow> real" where
  "quality_raw d =
     (if or_zero (total_good d) + or_zero (total_reject d) > 0
      then of_int (or_zero (total_good d))
             / of_int (or_zero (total_good d) + or_zero (total_reject d)) * 100
      else 0)"

subsection \<open>Pareto analysis of the losses\<close>

text \<open>A row of the grouped loss query, and an entry of the Pareto analysis.\<close>

record loss_row =
  l_category :: string
  l_subcategory :: string
  l_reason :: string
  total_duration :: real
  total_impact :: real
  l_occurrences :: nat

record pareto_entry =
  category :: string
  subcategory :: string
  reason :: string
  duration :: real
  impact :: real
  occurrences :: nat
  percentage :: real
  cumulative_percentage :: real

text \<open>
  \<^verbatim>\<open>round(x, 2)\<close>: to the nearest multiple of 0.01, a tie to the even one (on exact
  values).
\<close>

definition round_half_even :: "real \<Rightarrow> int" where
  "round_half_even y =
     (let f = \<lfloor>y\<rfloor>; d = y - of_int f
      in if d < 1 / 2 then f else if d > 1 / 2 then f + 1
         else if even f then f else f + 1)"

definition py_round2 :: "real \<Rightarrow> real" where
  "py_round2 x = of_int (round_half_even (x * 100)) / 100"

text \<open>
  The loop that builds \<^verbatim>\<open>pareto_losses\<close>: \<open>cum\<close> is \<^verbatim>\<open>cumulative_percentage\<close> before the
  row, \<open>acc\<close> the entries appended so far.
\<close>

fun pareto_loop ::
  "real \<Rightarrow> real \<Rightarrow> pareto_entry list \<Rightarrow> loss_row list \<Rightarrow> error + pareto_entry list" where
  "pareto_loop total_loss_time cum acc [] = Inr acc"
| "pareto_loop total_loss_time cum acc (loss # rest) =
     (case (if total_loss_time > 0
            then (case truediv (total_duration loss) total_loss_time of
                    Inl e \<Rightarrow> Inl e | Inr q \<Rightarrow> Inr (q * 100))
            else Inr 0) of
        Inl e \<Rightarrow> Inl e
      | Inr pct \<Rightarrow>
          pareto_loop total_loss_time (cum + pct)
            (acc @ [\<lparr>category = l_category loss, subcategory = l_subcategory loss,
                      reason = l_reason loss, duration = total_duration loss,
                      impact = total_impact loss, occurrences = l_occurrences loss,
                      percentage = py_round2 pct,
                      cumulative_percentage = py_round2 (cum + pct)\<rparr>])
            rest)"

text \<open>The loop that selects \<^verbatim>\<open>vital_few\<close>: append, then \<^verbatim>\<open>break\<close> at 80.\<close>

fun vital_few_loop :: "pareto_entry list \<Rightarrow> pareto_entry list \<Rightarrow> pareto_entry list" where
  "vital_few_loop acc [] = acc"
| "vital_few_loop acc (loss # rest) =
     (if cumulative_percentage loss \<ge> 80 then acc @ [loss]
      else vital_few_loop (acc @ [loss]) rest)"

text \<open>
  A recommendation. Its \<^verbatim>\<open>expected_impact\<close> is a fixed text, or a text ending in a
  number printed with one decimal and a percent sign; the model keeps the number.
\<close>

datatype impact_text = Fixed string | Percent string real

record recommendation =
  area :: string
  priority :: string
  rec_action :: string
  expected_impact :: impact_text

definition recommend :: "pareto_entry \<Rightarrow> recommendation list" where
  "recommend loss =
     (if category loss = ''AVAILABILITY'' then
        (if subcategory loss = ''BREAKDOWN'' then
           [\<lparr>area = ''Maintenance'', priority = ''HIGH'',
             rec_action = ''Implement predictive maintenance for '' @ reason loss,
             expected_impact = Percent ''Reduce downtime by '' (percentage loss / 2)\<rparr>]
         else if subcategory loss = ''SETUP'' then
           [\<lparr>area = ''Process'', priority = ''MEDIUM'',
             rec_action = ''Apply SMED techniques to reduce '' @ reason loss @ '' time'',
             expected_impact = Fixed ''Reduce setup time by 30-50%''\<rparr>]
         else [])
      else if category loss = ''PERFORMANCE'' then
        (if subcategory loss = ''MINOR_STOPS'' then
           [\<lparr>area = ''Automation'', priority = ''MEDIUM'',
             rec_action = ''Automate or eliminate minor stops due to '' @ reason loss,
             expected_impact = Percent ''Improve performance by '' (percentage loss / 3)\<rparr>]
         else if subcategory loss = ''SPEED_LOSS'' then
           [\<lparr>area = ''Optimization'', priority = ''LOW'',
             rec_action = ''Optimize process parameters for '' @ reason loss,
             expected_impact = Fixed ''Increase speed by 10-15%''\<rparr>]
         else [])
      else if category loss = ''QUALITY'' then
        [\<lparr>area = ''Quality Control'', priority = ''HIGH'',
          rec_action = ''Implement SPC and root cause analysis for '' @ reason loss,
          expected_impact = Percent ''Reduce defects by '' (percentage loss / 2)\<rparr>]
      else [])"

definition generate_recommendations :: "pareto_entry list \<Rightarrow> recommendation list" where
  "generate_recommendations vital_losses = concat (map recommend (take 5 vital_losses))"

record loss_analysis =
  period_start :: real
  period_end :: real
  total_loss_time :: real
  total_losses :: nat
  pareto_analysis :: "pareto_entry list"
  vital_few :: "pareto_entry list"
  recommendations :: "recommendation list"

datatype analysis_result = Message string | Analysis loss_analysis

text \<open>\<^verbatim>\<open>analyze_losses\<close>: \<open>losses\<close> is what \<^verbatim>\<open>cursor.fetchall()\<close> returns.\<close>

definition analyze_losses :: "loss_row list \<Rightarrow> real \<Rightarrow> real \<Rightarrow> error + analysis_result" where
  "analyze_losses losses start_time end_time =
     (if losses = [] then Inr (Message ''No losses found for the period'')
      else
        (let total = sum_list (map total_duration losses)
         in case pareto_loop total 0 [] losses of
              Inl e \<Rightarrow> Inl e
            | Inr pareto_losses \<Rightarrow>
                (let vital = vital_few_loop [] pareto_losses
                 in Inr (Analysis \<lparr>period_start = start_time, period_end = end_time,
                      total_loss_time = total, total_losses = length losses,
                      pareto_analysis = pareto_losses, vital_few = vital,
                      recommendations = generate_recommendations vital\<rparr>))))"

text \<open>
  The specification's vital few: the entries before the first one whose cumulative
  percentage reaches 80, and that one; all of them when none reaches 80.
\<close>

definition vital_prefix :: "pareto_entry list \<Rightarrow> pareto_entry list" where
  "vital_prefix xs =
     takeWhile (\<lambda>e. cumulative_percentage e < 80) xs
       @ take 1 (dropWhile (\<lambda>e. cumulative_percentage e < 80) xs)"

text \<open>The share of a row in the total, and the entries the first loop appends.\<close>

definition share :: "real \<Rightarrow> loss_row \<Rightarrow> real" where
  "share tot loss = (if tot > 0 then total_duration loss / tot * 100 else 0)"

fun pareto_entries :: "real \<Rightarrow> real \<Rightarrow> loss_row list \<Rightarrow> pareto_entry list" where
  "pareto_entries tot cum [] = []"
| "pareto_entries tot cum (loss # rest) =
     \<lparr>category = l_category loss, subcategory = l_subcategory loss,
       reason = l_reason loss, duration = total_duration loss,
       impact = total_impact loss, occurrences = l_occurrences loss,
       percentage = py_round2 (share tot loss),
       cumulative_percentage = py_round2 (cum + share tot loss)\<rparr>
     # pareto_entries tot (cum + share tot loss) rest"

text \<open>The Pareto entries of a result (none for an error or a message).\<close>

definition pareto_of :: "error + analysis_result \<Rightarrow> pareto_entry list" where
  "pareto_of r = (case r of Inr (Analysis a) \<Rightarrow> pareto_analysis a | _ \<Rightarrow> [])"

subsection \<open>Trend of the daily OEE\<close>

record daily_row =
  day :: int
  daily_oee :: real

record forecast_point =
  f_date :: real
  predicted_oee :: real

record trend_report =
  historical_average :: real
  trend :: string
  trend_strength :: real
  daily_change :: real
  forecast :: "forecast_point list"

datatype trend_result = TrendError string | TrendReport trend_report

text \<open>
  \<^verbatim>\<open>predict_oee_trend\<close>: \<open>data\<close> is what \<^verbatim>\<open>cursor.fetchall()\<close> returns, one row for each
  day that has data, and \<open>end_date\<close> is \<^verbatim>\<open>datetime.now()\<close>. The arithmetic is NumPy's,
  which raises nothing; the guards exclude a zero divisor. A day is 86400 seconds.
\<close>

definition predict_oee_trend :: "daily_row list \<Rightarrow> int \<Rightarrow> real \<Rightarrow> trend_result" where
  "predict_oee_trend data days_forecast end_date =
     (if length data < 7 then TrendError ''Insufficient data for trend analysis''
      else
        (let x = map of_nat [0..<length data];
             y = map daily_oee data;
             n = length x;
             x_mean = mean_of x;
             y_mean = mean_of y;
             numerator = sum_list (map2 (\<lambda>a b. (a - x_mean) * (b - y_mean)) x y);
             denominator = sum_list (map (\<lambda>a. (a - x_mean) ^ 2) x);
             slope = (if denominator \<noteq> 0 then numerator / denominator else 0);
             intercept = y_mean - slope * x_mean;
             y_pred = map (\<lambda>a. slope * a + intercept) x;
             ss_res = sum_list (map2 (\<lambda>b p. (b - p) ^ 2) y y_pred);
             ss_tot = sum_list (map (\<lambda>b. (b - y_mean) ^ 2) y);
             r_squared = (if ss_tot \<noteq> 0 then 1 - ss_res / ss_tot else 0);
             forecast_days = map (\<lambda>i. n + i) [0..<nat days_forecast];
             forecast_values = map (\<lambda>d. slope * of_nat d + intercept) forecast_days;
             forecast_dates =
               map (\<lambda>i. end_date + 86400 * (of_nat i + 1)) [0..<nat days_forecast];
             trend_label = (if slope > 0.1 then ''IMPROVING''
                            else if slope < - 0.1 then ''DECLINING'' else ''STABLE'')
         in TrendReport \<lparr>historical_average = y_mean, trend = trend_label,
              trend_strength = r_squared, daily_change = slope,
              forecast = map2 (\<lambda>date value.
                  \<lparr>f_date = date, predicted_oee = min 100 (max 0 value)\<rparr>)
                forecast_dates forecast_values\<rparr>))"

text \<open>Seven or more days whose OEE starts at \<open>b\<close> and changes by \<open>a\<close> a day.\<close>

definition linear_days :: "nat \<Rightarrow> real \<Rightarrow> real \<Rightarrow> daily_row list" where
  "linear_days n b a = map (\<lambda>i. \<lparr>day = int i, daily_oee = b + a * of_nat i\<rparr>) [0..<n]"

section \<open>Properties of the univariate check\<close>

lemma sorted_z_threshold:
  "sorted_reverse snd z_threshold =
     [(''CRITICAL'', 3.5), (''HIGH'', 3.0), (''MEDIUM'', 2.5), (''LOW'', 2.0)]"
  by (simp add: sorted_reverse_def z_threshold_def)

lemma determine_severity_bands:
  "determine_severity z =
     (if 3.5 \<le> z then Some ''CRITICAL'' else if 3 \<le> z then Some ''HIGH''
      else if 2.5 \<le> z then Some ''MEDIUM'' else if 2 \<le> z then Some ''LOW'' else None)"
  unfolding determine_severity_def sorted_z_threshold by simp

lemma check_anomaly_nonzero:
  assumes "s \<noteq> 0"
  shows "check_anomaly norm_cdf v mu (Some s) m t a =
     (case determine_severity \<bar>(v - mu) / s\<bar> of
        None \<Rightarrow> Inr None
      | Some level \<Rightarrow>
          Inr (Some \<lparr>timestamp = t, asset_id = a, metric = m,
            val = v, expected_value = mu, deviation = \<bar>(v - mu) / s\<bar>,
            severity = level,
            confidence = min 99.9 (norm_cdf \<bar>(v - mu) / s\<bar> * 100),
            description = \<lparr>desc_metric = m,
              desc_points = \<bar>v - mu\<bar>,
              desc_direction = (if v < mu then ''below'' else ''above''),
              desc_normal = mu\<rparr>\<rparr>))"
  using assms unfolding check_anomaly_def truediv_def Let_def
  by (simp only: if_False option.case sum.case)

lemma band_rank_mono: "z \<le> z' \<Longrightarrow> band_rank z \<le> band_rank z'"
  unfolding band_rank_def by (simp; linarith)

lemma check_anomaly_rank:
  assumes "s \<noteq> 0"
  shows "anomaly_rank (check_anomaly norm_cdf v mu (Some s) m t a) = band_rank \<bar>(v - mu) / s\<bar>"
proof -
  define z where "z = \<bar>(v - mu) / s\<bar>"
  show ?thesis
    unfolding check_anomaly_nonzero [OF assms] determine_severity_bands z_def [symmetric]
    by (simp add: anomaly_rank_def severity_rank_def band_rank_def)
qed

text \<open>
  What the code does for any non-zero \<open>s\<close>, of either sign: the z-score is
  \<open>\<bar>(v - mu) / s\<bar>\<close>.
\<close>

lemma check_anomaly_bands:
  assumes "s \<noteq> 0" and "z = \<bar>(v - mu) / s\<bar>"
    and "r = check_anomaly norm_cdf v mu (Some s) m t a"
  shows "(3.5 \<le> z \<longrightarrow> (\<exists>x. r = Inr (Some x) \<and> deviation x = z \<and> severity x = ''CRITICAL'')) \<and>
        (3 \<le> z \<and> z < 3.5 \<longrightarrow> (\<exists>x. r = Inr (Some x) \<and> deviation x = z \<and> severity x = ''HIGH'')) \<and>
        (2.5 \<le> z \<and> z < 3 \<longrightarrow> (\<exists>x. r = Inr (Some x) \<and> deviation x = z \<and> severity x = ''MEDIUM'')) \<and>
        (2 \<le> z \<and> z < 2.5 \<longrightarrow> (\<exists>x. r = Inr (Some x) \<and> deviation x = z \<and> severity x = ''LOW'')) \<and>
        (z < 2 \<longrightarrow> r = Inr None)"
  unfolding assms(3) check_anomaly_nonzero [OF assms(1)] determine_severity_bands
    assms(2) [symmetric]
  by (simp; linarith)

text \<open>
  Claim C1. A check against a baseline whose standard deviation is undefined or zero
  returns no anomaly. For a standard deviation \<open>s > 0\<close> and \<open>z = \<bar>v - mu\<bar> / s\<close>, the
  check returns an anomaly of deviation \<open>z\<close> whose severity is CRITICAL when
  \<open>z \<ge> 3.5\<close>, HIGH when \<open>3.0 \<le> z < 3.5\<close>, MEDIUM when \<open>2.5 \<le> z < 3.0\<close>, LOW when
  \<open>2.0 \<le> z < 2.5\<close>, and no anomaly when \<open>z < 2.0\<close>. The rank of the severity
  (none below LOW below MEDIUM below HIGH below CRITICAL) never decreases when \<open>z\<close>
  increases.
\<close>

theorem check_anomaly_severity:
  "check_anomaly norm_cdf v mu None m t a = Inr None \<and>
   check_anomaly norm_cdf v mu (Some 0) m t a = Inr None \<and>
   (0 < s \<longrightarrow>
     (let z = \<bar>v - mu\<bar> / s; r = check_anomaly norm_cdf v mu (Some s) m t a in
        (3.5 \<le> z \<longrightarrow> (\<exists>x. r = Inr (Some x) \<and> deviation x = z \<and> severity x = ''CRITICAL'')) \<and>
        (3 \<le> z \<and> z < 3.5 \<longrightarrow> (\<exists>x. r = Inr (Some x) \<and> deviation x = z \<and> severity x = ''HIGH'')) \<and>
        (2.5 \<le> z \<and> z < 3 \<longrightarrow> (\<exists>x. r = Inr (Some x) \<and> deviation x = z \<and> severity x = ''MEDIUM'')) \<and>
        (2 \<le> z \<and> z < 2.5 \<longrightarrow> (\<exists>x. r = Inr (Some x) \<and> deviation x = z \<and> severity x = ''LOW'')) \<and>
        (z < 2 \<longrightarrow> r = Inr None))) \<and>
   (0 < s \<and> 0 < s' \<and> \<bar>v - mu\<bar> / s \<le> \<bar>v' - mu'\<bar> / s' \<longrightarrow>
      anomaly_rank (check_anomaly norm_cdf v mu (Some s) m t a)
        \<le> anomaly_rank (check_anomaly norm_cdf v' mu' (Some s') m' t' a'))"
proof (intro conjI impI)
  show "check_anomaly norm_cdf v mu None m t a = Inr None"
    by (simp add: check_anomaly_def)
  show "check_anomaly norm_cdf v mu (Some 0) m t a = Inr None"
    by (simp add: check_anomaly_def)
next
  assume pos: "0 < s"
  then have z: "\<bar>v - mu\<bar> / s = \<bar>(v - mu) / s\<bar>"
    by simp
  from pos have nz: "s \<noteq> 0" by simp
  show "let z = \<bar>v - mu\<bar> / s; r = check_anomaly norm_cdf v mu (Some s) m t a in
        (3.5 \<le> z \<longrightarrow> (\<exists>x. r = Inr (Some x) \<and> deviation x = z \<and> severity x = ''CRITICAL'')) \<and>
        (3 \<le> z \<and> z < 3.5 \<longrightarrow> (\<exists>x. r = Inr (Some x) \<and> deviation x = z \<and> severity x = ''HIGH'')) \<and>
        (2.5 \<le> z \<and> z < 3 \<longrightarrow> (\<exists>x. r = Inr (Some x) \<and> deviation x = z \<and> severity x = ''MEDIUM'')) \<and>
        (2 \<le> z \<and> z < 2.5 \<longrightarrow> (\<exists>x. r = Inr (Some x) \<and> deviation x = z \<and> severity x = ''LOW'')) \<and>
        (z < 2 \<longrightarrow> r = Inr None)"
    unfolding Let_def by (rule check_anomaly_bands [OF nz z refl])
next
  assume h: "0 < s \<and> 0 < s' \<and> \<bar>v - mu\<bar> / s \<le> \<bar>v' - mu'\<bar> / s'"
  then have nz: "s \<noteq> 0" and nz': "s' \<noteq> 0" by simp_all
  from h have "\<bar>(v - mu) / s\<bar> \<le> \<bar>(v' - mu') / s'\<bar>"
    by simp
  then show "anomaly_rank (check_anomaly norm_cdf v mu (Some s) m t a)
        \<le> anomaly_rank (check_anomaly norm_cdf v' mu' (Some s') m' t' a')"
    unfolding check_anomaly_rank [OF nz] check_anomaly_rank [OF nz']
    by (rule band_rank_mono)
qed

text \<open>
  At mean 80 and standard deviation 5, the sample 95 has \<open>z = 3\<close> and is HIGH; the
  sample 60 has \<open>z = 4\<close> and ranks at least as high.
\<close>

theorem check_anomaly_severity_witness:
  "(\<exists>x. check_anomaly (\<lambda>z. 1) 95 80 (Some 5) ''OEE'' 0 ''A1'' = Inr (Some x)
       \<and> deviation x = 3 \<and> severity x = ''HIGH'') \<and>
   anomaly_rank (check_anomaly (\<lambda>z. 1) 95 80 (Some 5) ''OEE'' 0 ''A1'')
     \<le> anomaly_rank (check_anomaly (\<lambda>z. 1) 60 80 (Some 5) ''OEE'' 0 ''A1'')"
  using check_anomaly_severity [where s = 5 and v = 95 and mu = 80 and s' = 5
    and v' = 60 and mu' = 80 and norm_cdf = "\<lambda>z. 1" and m = "''OEE''" and t = 0
    and a = "''A1''" and m' = "''OEE''" and t' = 0 and a' = "''A1''"]
  by (simp add: Let_def)

lemma check_anomaly_SomeD:
  assumes "check_anomaly norm_cdf v mu std m t a = Inr (Some x)"
  shows "\<exists>s. std = Some s \<and> s \<noteq> 0 \<and> deviation x = \<bar>(v - mu) / s\<bar> \<and>
           confidence x = min 99.9 (norm_cdf \<bar>(v - mu) / s\<bar> * 100) \<and>
           determine_severity \<bar>(v - mu) / s\<bar> = Some (severity x)"
proof (cases std)
  case None
  with assms show ?thesis by (simp add: check_anomaly_def)
next
  case (Some s)
  show ?thesis
  proof (cases "s = 0")
    case True
    with assms Some show ?thesis by (simp add: check_anomaly_def)
  next
    case False
    define z where "z = \<bar>(v - mu) / s\<bar>"
    from assms Some have "check_anomaly norm_cdf v mu (Some s) m t a = Inr (Some x)"
      by simp
    then show ?thesis
      unfolding check_anomaly_nonzero [OF False] z_def [symmetric]
      using Some False by (auto split: option.splits simp: z_def)
  qed
qed

text \<open>
  Claim C8. Every anomaly the univariate check returns has
  \<open>confidence = min 99.9 (norm_cdf z * 100)\<close>, where \<open>z\<close> is its z-score (its
  deviation). So the confidence is at most 99.9; it is at least 0 as a distribution
  function is never negative; and since a distribution function is monotone, an anomaly
  of greater z-score has at least the confidence of one of smaller z-score.
\<close>

theorem check_anomaly_confidence:
  "(check_anomaly norm_cdf v mu std m t a = Inr (Some x) \<longrightarrow>
      (\<exists>s. std = Some s \<and> s \<noteq> 0 \<and> deviation x = \<bar>(v - mu) / s\<bar>) \<and>
      confidence x = min 99.9 (norm_cdf (deviation x) * 100) \<and>
      confidence x \<le> 99.9 \<and>
      (0 \<le> norm_cdf (deviation x) \<longrightarrow> 0 \<le> confidence x)) \<and>
   (mono norm_cdf \<and> check_anomaly norm_cdf v mu std m t a = Inr (Some x) \<and>
      check_anomaly norm_cdf v' mu' std' m' t' a' = Inr (Some x') \<and>
      deviation x \<le> deviation x' \<longrightarrow> confidence x \<le> confidence x')"
proof (intro conjI impI)
  assume r: "check_anomaly norm_cdf v mu std m t a = Inr (Some x)"
  from check_anomaly_SomeD [OF r] obtain s where s: "std = Some s" "s \<noteq> 0"
    "deviation x = \<bar>(v - mu) / s\<bar>"
    "confidence x = min 99.9 (norm_cdf \<bar>(v - mu) / s\<bar> * 100)"
    by blast
  from s show "\<exists>s. std = Some s \<and> s \<noteq> 0 \<and> deviation x = \<bar>(v - mu) / s\<bar>"
    by blast
  from s show c: "confidence x = min 99.9 (norm_cdf (deviation x) * 100)"
    by simp
  from c show "confidence x \<le> 99.9" by simp
  assume "0 \<le> norm_cdf (deviation x)"
  with c show "0 \<le> confidence x" by simp
next
  assume h: "mono norm_cdf \<and> check_anomaly norm_cdf v mu std m t a = Inr (Some x) \<and>
      check_anomaly norm_cdf v' mu' std' m' t' a' = Inr (Some x') \<and>
      deviation x \<le> deviation x'"
  from h check_anomaly_SomeD [of norm_cdf v mu std m t a x]
  have c: "confidence x = min 99.9 (norm_cdf (deviation x) * 100)" by auto
  from h check_anomaly_SomeD [of norm_cdf v' mu' std' m' t' a' x']
  have c': "confidence x' = min 99.9 (norm_cdf (deviation x') * 100)" by auto
  from h have "norm_cdf (deviation x) \<le> norm_cdf (deviation x')"
    by (auto dest: monoD)
  with c c' show "confidence x \<le> confidence x'"
    by (simp add: min_le_iff_disj)
qed

text \<open>
  With a monotone function of values in \<open>[0, 1]\<close> for the distribution function: the
  samples 95 and 60 against mean 80 and standard deviation 5.
\<close>

theorem check_anomaly_confidence_witness:
  "\<exists>x x'. check_anomaly (\<lambda>z. max 0 (min 1 (1 / 2 + z / 8))) 95 80 (Some 5) ''OEE'' 0 ''A1''
             = Inr (Some x) \<and>
     check_anomaly (\<lambda>z. max 0 (min 1 (1 / 2 + z / 8))) 60 80 (Some 5) ''OEE'' 0 ''A1''
             = Inr (Some x') \<and>
     deviation x = 3 \<and> deviation x' = 4 \<and>
     confidence x = 87.5 \<and> confidence x' = 99.9 \<and>
     0 \<le> confidence x \<and> confidence x \<le> confidence x'"
proof -
  let ?cdf = "\<lambda>z::real. max 0 (min 1 (1 / 2 + z / 8))"
  let ?x = "\<lparr>timestamp = 0, asset_id = ''A1'', metric = ''OEE'', val = 95,
     expected_value = 80, deviation = 3, severity = ''HIGH'', confidence = 87.5,
     description = \<lparr>desc_metric = ''OEE'', desc_points = 15,
       desc_direction = ''above'', desc_normal = 80\<rparr>\<rparr>"
  let ?x' = "\<lparr>timestamp = 0, asset_id = ''A1'', metric = ''OEE'', val = 60,
     expected_value = 80, deviation = 4, severity = ''CRITICAL'', confidence = 99.9,
     description = \<lparr>desc_metric = ''OEE'', desc_points = 20,
       desc_direction = ''below'', desc_normal = 80\<rparr>\<rparr>"
  have m: "mono ?cdf"
    by (rule monoI) (simp add: max_def min_def)
  have r: "check_anomaly ?cdf 95 80 (Some 5) ''OEE'' 0 ''A1'' = Inr (Some ?x)"
    by (simp add: check_anomaly_def truediv_def determine_severity_bands)
  have r': "check_anomaly ?cdf 60 80 (Some 5) ''OEE'' 0 ''A1'' = Inr (Some ?x')"
    by (simp add: check_anomaly_def truediv_def determine_severity_bands)
  from check_anomaly_confidence [of ?cdf 95 80 "Some 5" "''OEE''" 0 "''A1''" ?x
      60 80 "Some 5" "''OEE''" 0 "''A1''" ?x'] m r r'
  have "0 \<le> confidence ?x \<and> confidence ?x \<le> confidence ?x'" by simp
  with r r' show ?thesis by simp
qed

section \<open>Properties of the descending stable sort\<close>

text \<open>
  \<^const>\<open>sorted_reverse\<close> returns a permutation of its argument, in descending order of
  the key, and keeps the elements of equal key in the order of the argument.
\<close>

lemma set_insort_reverse: "set (insort_reverse f x ys) = insert x (set ys)"
  by (induction ys) auto

lemma mset_insort_reverse: "mset (insort_reverse f x ys) = add_mset x (mset ys)"
  by (induction ys) auto

lemma sorted_insort_reverse:
  "sorted_wrt (\<lambda>a b. f b \<le> f a) ys \<Longrightarrow> sorted_wrt (\<lambda>a b. f b \<le> f a) (insort_reverse f x ys)"
  by (induction ys) (auto simp: set_insort_reverse)

lemma filter_insort_reverse:
  "sorted_wrt (\<lambda>a b. f b \<le> f a) ys \<Longrightarrow>
     filter (\<lambda>z. f z = k) (insort_reverse f x ys) =
       (if f x = k then x # filter (\<lambda>z. f z = k) ys else filter (\<lambda>z. f z = k) ys)"
  by (induction ys) auto

lemma mset_sorted_reverse: "mset (sorted_reverse f xs) = mset xs"
  unfolding sorted_reverse_def by (induction xs) (simp_all add: mset_insort_reverse)

lemma sorted_sorted_reverse: "sorted_wrt (\<lambda>a b. f b \<le> f a) (sorted_reverse f xs)"
  unfolding sorted_reverse_def by (induction xs) (simp_all add: sorted_insort_reverse)

lemma stable_sorted_reverse:
  "filter (\<lambda>z. f z = k) (sorted_reverse f xs) = filter (\<lambda>z. f z = k) xs"
proof (induction xs)
  case Nil
  show ?case by (simp add: sorted_reverse_def)
next
  case (Cons x xs)
  have "sorted_reverse f (x # xs) = insort_reverse f x (sorted_reverse f xs)"
    by (simp add: sorted_reverse_def)
  with Cons show ?case
    by (simp add: filter_insort_reverse [OF sorted_sorted_reverse])
qed

section \<open>Properties of the alert list\<close>

text \<open>What the final sort guarantees: the labels, compared as text, never increase.\<close>

lemma generate_alerts_sorted_by_label:
  "sorted_wrt (\<lambda>a b. alert_severity b \<le> alert_severity a) (generate_alerts anomalies)"
  unfolding generate_alerts_def by (rule sorted_sorted_reverse)

text \<open>
  Claim C3 says that the alerts are ordered most severe first under
  \<open>LOW < MEDIUM < HIGH < CRITICAL\<close>. The sort compares the labels as text, where
  \<open>''CRITICAL'' < ''HIGH'' < ''LOW'' < ''MEDIUM''\<close>. For a CRITICAL and a HIGH anomaly
  of one asset the list is HIGH, then CRITICAL: not most severe first.
\<close>

theorem generate_alerts_lexical:
  "map alert_severity (generate_alerts
     [\<lparr>timestamp = 1, asset_id = ''A1'', metric = ''OEE'', val = 40, expected_value = 80,
        deviation = 4, severity = ''CRITICAL'', confidence = 99.9,
        description = \<lparr>desc_metric = ''OEE'', desc_points = 40,
          desc_direction = ''below'', desc_normal = 80\<rparr>\<rparr>,
      \<lparr>timestamp = 2, asset_id = ''A1'', metric = ''Quality'', val = 65, expected_value = 80,
        deviation = 3, severity = ''HIGH'', confidence = 99.8,
        description = \<lparr>desc_metric = ''Quality'', desc_points = 15,
          desc_direction = ''below'', desc_normal = 80\<rparr>\<rparr>])
   = [''HIGH'', ''CRITICAL''] \<and>
   \<not> most_severe_first (generate_alerts
     [\<lparr>timestamp = 1, asset_id = ''A1'', metric = ''OEE'', val = 40, expected_value = 80,
        deviation = 4, severity = ''CRITICAL'', confidence = 99.9,
        description = \<lparr>desc_metric = ''OEE'', desc_points = 40,
          desc_direction = ''below'', desc_normal = 80\<rparr>\<rparr>,
      \<lparr>timestamp = 2, asset_id = ''A1'', metric = ''Quality'', val = 65, expected_value = 80,
        deviation = 3, severity = ''HIGH'', confidence = 99.8,
        description = \<lparr>desc_metric = ''Quality'', desc_points = 15,
          desc_direction = ''below'', desc_normal = 80\<rparr>\<rparr>])"
  by (simp add: generate_alerts_def group_anomalies_def sorted_reverse_def severity_rank_def)

section \<open>Properties of the OEE calculation\<close>

text \<open>Under its guard a division never raises.\<close>

lemma guarded_div:
  "(if 0 < b then (case truediv a b of Inl e \<Rightarrow> Inl e | Inr q \<Rightarrow> Inr (q * 100)) else Inr 0)
     = Inr (if 0 < b then a / b * 100 else 0)"
  by (simp add: truediv_def)

lemma guarded_div_int:
  "(if 0 < (t::int) then (case truediv a (of_int t) of Inl e \<Rightarrow> Inl e | Inr q \<Rightarrow> Inr (q * 100))
      else Inr 0)
     = Inr (if 0 < t then a / of_int t * 100 else 0)"
  by (simp add: truediv_def)

lemma calculate_oee_Some:
  "calculate_oee redis (Some d) asset st en now =
     (Inr \<lparr>m_timestamp = now, m_asset_id = asset, m_line_id = row_line_id d,
        oee = min 100 (max 0 (availability_raw d st en
                * performance_raw d (fst (get_ideal_cycle_time redis asset))
                * quality_raw d / 10000)),
        availability = min 100 (max 0 (availability_raw d st en)),
        performance = min 100 (max 0
           (performance_raw d (fst (get_ideal_cycle_time redis asset)))),
        quality = min 100 (max 0 (quality_raw d)),
        runtime = or_zero (total_runtime d), downtime = or_zero (total_downtime d),
        total_count = or_zero (total_good d) + or_zero (total_reject d),
        good_count = or_zero (total_good d),
        reject_count = or_zero (total_reject d)\<rparr>,
      snd (get_ideal_cycle_time redis asset))"
  unfolding calculate_oee_def availability_raw_def performance_raw_def quality_raw_def
    planned_minutes_def Let_def option.case guarded_div guarded_div_int sum.case
  by (simp only: split_def)


lemma clamp_bounds: "0 \<le> min (100::real) (max 0 x) \<and> min (100::real) (max 0 x) \<le> 100"
  by simp

lemma clamp_nonpos: "x \<le> 0 \<Longrightarrow> min (100::real) (max 0 x) = 0"
  by simp

lemma calculate_oee_fields:
  "\<exists>m. calculate_oee redis (Some d) asset st en now
           = (Inr m, snd (get_ideal_cycle_time redis asset)) \<and>
     availability m = min 100 (max 0 (availability_raw d st en)) \<and>
     performance m = min 100 (max 0
        (performance_raw d (fst (get_ideal_cycle_time redis asset)))) \<and>
     quality m = min 100 (max 0 (quality_raw d)) \<and>
     oee m = min 100 (max 0 (availability_raw d st en
                * performance_raw d (fst (get_ideal_cycle_time redis asset))
                * quality_raw d / 10000)) \<and>
     runtime m = or_zero (total_runtime d) \<and>
     total_count m = or_zero (total_good d) + or_zero (total_reject d)"
  unfolding calculate_oee_Some
  by (intro exI conjI) (rule refl | simp only: oee_metrics.simps)+

lemma availability_raw_no_runtime:
  "or_zero (total_runtime d) = 0 \<Longrightarrow> availability_raw d st en = 0"
  by (simp add: availability_raw_def)

lemma availability_raw_guard: "(en - st) / 60 \<le> 0 \<Longrightarrow> availability_raw d st en = 0"
  by (simp add: availability_raw_def planned_minutes_def)

lemma performance_raw_guard: "or_zero (total_runtime d) \<le> 0 \<Longrightarrow> performance_raw d c = 0"
  by (simp add: performance_raw_def)

lemma quality_raw_guard:
  "or_zero (total_good d) + or_zero (total_reject d) \<le> 0 \<Longrightarrow> quality_raw d = 0"
  by (simp add: quality_raw_def)

lemma quality_raw_no_good: "or_zero (total_good d) = 0 \<Longrightarrow> quality_raw d = 0"
  by (simp add: quality_raw_def)

text \<open>
  Claim C2. For every aggregate row and every time window, \<^verbatim>\<open>calculate_oee\<close> returns
  metrics (it raises nothing, so no division fault), and availability, performance,
  quality and oee each lie in \<open>[0, 100]\<close>. With runtime 0 the availability, the
  performance and the oee are 0. A planned time \<open>\<le> 0\<close> gives availability 0, a
  runtime \<open>\<le> 0\<close> gives performance 0, a total count \<open>\<le> 0\<close> gives quality 0.
\<close>

theorem calculate_oee_bounds:
  "\<exists>m redis'. calculate_oee redis (Some d) asset st en now = (Inr m, redis') \<and>
     0 \<le> availability m \<and> availability m \<le> 100 \<and>
     0 \<le> performance m \<and> performance m \<le> 100 \<and>
     0 \<le> quality m \<and> quality m \<le> 100 \<and>
     0 \<le> oee m \<and> oee m \<le> 100 \<and>
     (runtime m = 0 \<longrightarrow> availability m = 0 \<and> performance m = 0 \<and> oee m = 0) \<and>
     ((en - st) / 60 \<le> 0 \<longrightarrow> availability m = 0) \<and>
     (runtime m \<le> 0 \<longrightarrow> performance m = 0) \<and>
     (total_count m \<le> 0 \<longrightarrow> quality m = 0)"
proof -
  from calculate_oee_fields [of redis d asset st en now] obtain m where
    eq: "calculate_oee redis (Some d) asset st en now
           = (Inr m, snd (get_ideal_cycle_time redis asset))"
    and a: "availability m = min 100 (max 0 (availability_raw d st en))"
    and p: "performance m = min 100 (max 0
        (performance_raw d (fst (get_ideal_cycle_time redis asset))))"
    and q: "quality m = min 100 (max 0 (quality_raw d))"
    and o: "oee m = min 100 (max 0 (availability_raw d st en
                * performance_raw d (fst (get_ideal_cycle_time redis asset))
                * quality_raw d / 10000))"
    and r: "runtime m = or_zero (total_runtime d)"
    and t: "total_count m = or_zero (total_good d) + or_zero (total_reject d)"
    by blast
  have b: "0 \<le> availability m \<and> availability m \<le> 100 \<and>
     0 \<le> performance m \<and> performance m \<le> 100 \<and>
     0 \<le> quality m \<and> quality m \<le> 100 \<and> 0 \<le> oee m \<and> oee m \<le> 100"
    unfolding a p q o using clamp_bounds by blast
  have z: "runtime m = 0 \<longrightarrow> availability m = 0 \<and> performance m = 0 \<and> oee m = 0"
    unfolding a p o r
    by (simp add: availability_raw_no_runtime performance_raw_guard)
  have g1: "(en - st) / 60 \<le> 0 \<longrightarrow> availability m = 0"
    unfolding a by (simp add: availability_raw_guard)
  have g2: "runtime m \<le> 0 \<longrightarrow> performance m = 0"
    unfolding p r by (simp add: performance_raw_guard)
  have g3: "total_count m \<le> 0 \<longrightarrow> quality m = 0"
    unfolding q t by (simp add: quality_raw_guard)
  from eq b z g1 g2 g3 show ?thesis by blast
qed

text \<open>
  An empty window (planned time 0) of an asset that did not run and counted nothing: all
  four metrics are 0.
\<close>

theorem calculate_oee_bounds_witness:
  "\<exists>m redis'.
     calculate_oee Map.empty
       (Some \<lparr>row_asset_id = ''A1'', row_line_id = ''L1'', total_runtime = Some 0,
          total_downtime = Some 60, total_good = None, total_reject = None,
          avg_temp = None, avg_vibration = None\<rparr>) ''A1'' 3600 3600 7200 = (Inr m, redis') \<and>
     runtime m = 0 \<and> total_count m = 0 \<and>
     availability m = 0 \<and> performance m = 0 \<and> quality m = 0 \<and> oee m = 0"
  using calculate_oee_bounds [of Map.empty
       "\<lparr>row_asset_id = ''A1'', row_line_id = ''L1'', total_runtime = Some 0,
          total_downtime = Some 60, total_good = None, total_reject = None,
          avg_temp = None, avg_vibration = None\<rparr>" "''A1''" 3600 3600 7200]
  by (auto simp: calculate_oee_Some or_zero_def)

text \<open>
  Claim C6. \<^verbatim>\<open>calculate_oee\<close> raises the error \<^verbatim>\<open>No data found for asset ...\<close> exactly
  when the query returned no row, and it raises no other error. When there is a row it
  returns metrics; a row with no runtime and no good count gives metrics that are all 0.
\<close>

theorem calculate_oee_no_data:
  "(fst (calculate_oee redis data asset st en now)
      = Inl (ValueError (''No data found for asset '' @ asset)) \<longleftrightarrow> data = None) \<and>
   ((\<exists>e. fst (calculate_oee redis data asset st en now) = Inl e) \<longleftrightarrow> data = None) \<and>
   (\<forall>d. data = Some d \<longrightarrow>
      (\<exists>m. fst (calculate_oee redis data asset st en now) = Inr m \<and>
         (or_zero (total_runtime d) = 0 \<and> or_zero (total_good d) = 0 \<longrightarrow>
            oee m = 0 \<and> availability m = 0 \<and> performance m = 0 \<and> quality m = 0)))"
proof (cases data)
  case None
  then show ?thesis by (simp add: calculate_oee_def)
next
  case (Some d)
  from calculate_oee_fields [of redis d asset st en now] obtain m where
    eq: "calculate_oee redis (Some d) asset st en now
           = (Inr m, snd (get_ideal_cycle_time redis asset))"
    and a: "availability m = min 100 (max 0 (availability_raw d st en))"
    and p: "performance m = min 100 (max 0
        (performance_raw d (fst (get_ideal_cycle_time redis asset))))"
    and q: "quality m = min 100 (max 0 (quality_raw d))"
    and o: "oee m = min 100 (max 0 (availability_raw d st en
                * performance_raw d (fst (get_ideal_cycle_time redis asset))
                * quality_raw d / 10000))"
    by blast
  have z: "or_zero (total_runtime d) = 0 \<and> or_zero (total_good d) = 0 \<longrightarrow>
      oee m = 0 \<and> availability m = 0 \<and> performance m = 0 \<and> quality m = 0"
    unfolding a p q o
    by (simp add: availability_raw_no_runtime performance_raw_guard quality_raw_no_good)
  from eq z show ?thesis unfolding Some by simp
qed

text \<open>A row of zeros over an hour: a normal result, all four metrics 0.\<close>

theorem calculate_oee_no_data_witness:
  "\<exists>m. fst (calculate_oee Map.empty
       (Some \<lparr>row_asset_id = ''A1'', row_line_id = ''L1'', total_runtime = Some 0,
          total_downtime = Some 0, total_good = Some 0, total_reject = Some 0,
          avg_temp = None, avg_vibration = None\<rparr>) ''A1'' 0 3600 7200) = Inr m \<and>
     oee m = 0 \<and> availability m = 0 \<and> performance m = 0 \<and> quality m = 0"
  using calculate_oee_no_data [of Map.empty
       "Some \<lparr>row_asset_id = ''A1'', row_line_id = ''L1'', total_runtime = Some 0,
          total_downtime = Some 0, total_good = Some 0, total_reject = Some 0,
          avg_temp = None, avg_vibration = None\<rparr>" "''A1''" 0 3600 7200]
  by (simp add: or_zero_def)

lemma product_below_composite:
  fixes a p q :: real
  assumes p: "100 < p" and a: "0 < a" and q: "0 < q" and lt: "a < 100 \<or> q < 100"
  shows "min 100 (max 0 a) * min 100 (max 0 p) * min 100 (max 0 q) / 10000
           < min 100 (max 0 (a * p * q / 10000))"
proof -
  define a' where "a' = min 100 a"
  define q' where "q' = min 100 q"
  have a': "0 < a'" "a' \<le> 100" "a' \<le> a" and q': "0 < q'" "q' \<le> 100" "q' \<le> q"
    using a q by (simp_all add: a'_def q'_def)
  have lhs: "min 100 (max 0 a) * min 100 (max 0 p) * min 100 (max 0 q) / 10000 = a' * q' / 100"
    using a p q by (simp add: a'_def q'_def max_def)
  have pos: "0 < a * q" using a q by simp
  have "a' * q' \<le> a * q"
    using a' q' a q by (intro mult_mono) simp_all
  moreover have "a * q * 100 < a * q * p"
    using p pos by (rule mult_strict_left_mono)
  ultimately have "a' * q' * 100 < a * q * p" by linarith
  then have one: "a' * q' / 100 < a * p * q / 10000"
    by (simp add: field_simps)
  have "a' * q' < 100 * 100"
  proof (cases "a < 100")
    case True
    then have "a' < 100" by (simp add: a'_def)
    then have "a' * q' < 100 * q'" using q' by simp
    also have "\<dots> \<le> 100 * 100" using q' by simp
    finally show ?thesis .
  next
    case False
    with lt have "q < 100" by simp
    then have "q' < 100" by (simp add: q'_def)
    then have "a' * q' < a' * 100" using a' by simp
    also have "\<dots> \<le> 100 * 100" using a' by simp
    finally show ?thesis .
  qed
  then have two: "a' * q' / 100 < 100" by simp
  have "0 < a * p * q / 10000" using a p q by simp
  then have "max 0 (a * p * q / 10000) = a * p * q / 10000" by simp
  with one two show ?thesis unfolding lhs by simp
qed

text \<open>
  Claim C10. The returned oee is the clamp of the product of the components before
  their clamp, \<open>min 100 (max 0 (a * p * q / 10000))\<close>, while each returned component is
  the clamp of its own raw value. When the raw performance exceeds 100, the raw
  availability and quality are positive and one of them is below 100, the returned oee
  is strictly greater than the product of the returned components over 10000.
\<close>

theorem calculate_oee_unclamped_product:
  "\<exists>m redis'. calculate_oee redis (Some d) asset st en now = (Inr m, redis') \<and>
     (let a = availability_raw d st en;
          p = performance_raw d (fst (get_ideal_cycle_time redis asset));
          q = quality_raw d
      in availability m = min 100 (max 0 a) \<and>
         performance m = min 100 (max 0 p) \<and>
         quality m = min 100 (max 0 q) \<and>
         oee m = min 100 (max 0 (a * p * q / 10000)) \<and>
         (100 < p \<and> 0 < a \<and> 0 < q \<and> (a < 100 \<or> q < 100) \<longrightarrow>
            availability m * performance m * quality m / 10000 < oee m))"
proof -
  let ?a = "availability_raw d st en"
  let ?p = "performance_raw d (fst (get_ideal_cycle_time redis asset))"
  let ?q = "quality_raw d"
  have gap: "100 < ?p \<and> 0 < ?a \<and> 0 < ?q \<and> (?a < 100 \<or> ?q < 100) \<longrightarrow>
      min 100 (max 0 ?a) * min 100 (max 0 ?p) * min 100 (max 0 ?q) / 10000
        < min 100 (max 0 (?a * ?p * ?q / 10000))"
    using product_below_composite [of ?p ?a ?q] by blast
  from calculate_oee_fields [of redis d asset st en now] gap show ?thesis
    unfolding Let_def by (elim exE conjE) (intro exI conjI, assumption, simp_all only:)
qed

text \<open>
  Thirty minutes of runtime in an hour, sixty good units at the default ideal cycle time
  of one minute: availability 50, raw performance 200 returned as 100, quality 100. The
  returned oee is 100, the product of the returned components gives 50.
\<close>

theorem calculate_oee_unclamped_product_witness:
  "\<exists>m redis'.
     calculate_oee Map.empty
       (Some \<lparr>row_asset_id = ''A1'', row_line_id = ''L1'', total_runtime = Some 30,
          total_downtime = Some 30, total_good = Some 60, total_reject = Some 0,
          avg_temp = None, avg_vibration = None\<rparr>) ''A1'' 0 3600 7200 = (Inr m, redis') \<and>
     availability m = 50 \<and> performance m = 100 \<and> quality m = 100 \<and> oee m = 100 \<and>
     availability m * performance m * quality m / 10000 = 50 \<and>
     availability m * performance m * quality m / 10000 < oee m"
  using calculate_oee_unclamped_product [of Map.empty
       "\<lparr>row_asset_id = ''A1'', row_line_id = ''L1'', total_runtime = Some 30,
          total_downtime = Some 30, total_good = Some 60, total_reject = Some 0,
          avg_temp = None, avg_vibration = None\<rparr>" "''A1''" 0 3600 7200]
  by (auto simp: calculate_oee_Some or_zero_def availability_raw_def performance_raw_def
      quality_raw_def planned_minutes_def get_ideal_cycle_time_def Let_def)

section \<open>Properties of the loss analysis\<close>

text \<open>The first loop raises nothing and appends \<^const>\<open>pareto_entries\<close>; the second
  appends \<^const>\<open>vital_prefix\<close>.\<close>

lemma pareto_loop_entries:
  "pareto_loop tot cum acc losses = Inr (acc @ pareto_entries tot cum losses)"
proof (induction losses arbitrary: cum acc)
  case Nil
  show ?case by simp
next
  case (Cons loss rest)
  have g: "(if tot > 0
            then (case truediv (total_duration loss) tot of
                    Inl e \<Rightarrow> Inl e | Inr q \<Rightarrow> Inr (q * 100))
            else Inr 0) = Inr (share tot loss)"
    by (simp add: share_def truediv_def)
  show ?case
    unfolding pareto_loop.simps g sum.case Cons.IH by simp
qed

lemma vital_few_loop_prefix: "vital_few_loop acc xs = acc @ vital_prefix xs"
  by (induction xs arbitrary: acc) (simp_all add: vital_prefix_def)

lemma vital_prefix_all:
  "\<forall>e \<in> set xs. cumulative_percentage e < 80 \<Longrightarrow> vital_prefix xs = xs"
proof -
  assume a: "\<forall>e \<in> set xs. cumulative_percentage e < 80"
  then have tw: "takeWhile (\<lambda>e. cumulative_percentage e < 80) xs = xs"
    by (simp add: takeWhile_eq_all_conv)
  from a have dw: "dropWhile (\<lambda>e. cumulative_percentage e < 80) xs = []"
    by (simp add: dropWhile_eq_Nil_conv)
  show ?thesis unfolding vital_prefix_def tw dw by simp
qed

lemma vital_prefix_first:
  assumes "i < length xs" and "80 \<le> cumulative_percentage (xs ! i)"
    and "\<forall>j < i. cumulative_percentage (xs ! j) < 80"
  shows "vital_prefix xs = take (Suc i) xs"
proof -
  let ?P = "\<lambda>e. cumulative_percentage e < 80"
  have tw: "takeWhile ?P xs = take i xs"
    using assms by (intro takeWhile_eq_take_P_nth) auto
  have "dropWhile ?P xs = drop (length (takeWhile ?P xs)) xs"
    by (rule dropWhile_eq_drop)
  also have "\<dots> = drop i xs" using assms(1) by (simp add: tw)
  finally have dw: "dropWhile ?P xs = drop i xs" .
  have "take 1 (drop i xs) = [xs ! i]"
    using assms(1) by (simp add: Cons_nth_drop_Suc [symmetric])
  then show ?thesis
    unfolding vital_prefix_def tw dw using assms(1) by (simp add: take_Suc_conv_app_nth)
qed

lemma analyze_losses_nonempty:
  assumes "losses \<noteq> []"
  shows "analyze_losses losses st en =
     Inr (Analysis \<lparr>period_start = st, period_end = en,
        total_loss_time = sum_list (map total_duration losses),
        total_losses = length losses,
        pareto_analysis = pareto_entries (sum_list (map total_duration losses)) 0 losses,
        vital_few = vital_prefix (pareto_entries (sum_list (map total_duration losses)) 0 losses),
        recommendations = generate_recommendations
          (vital_prefix (pareto_entries (sum_list (map total_duration losses)) 0 losses))\<rparr>)"
  using assms
  by (simp add: analyze_losses_def pareto_loop_entries vital_few_loop_prefix Let_def)

text \<open>
  Claim C4. For every non-empty list of losses, \<^verbatim>\<open>analyze_losses\<close> returns an analysis
  whose vital few are the ranked entries up to and including the first one whose
  cumulative percentage is at least 80 (the first \<open>i + 1\<close> entries when that one has
  index \<open>i\<close>), and all the ranked entries when none reaches 80.
\<close>

theorem analyze_losses_vital_few:
  "losses \<noteq> [] \<longrightarrow>
     (\<exists>r. analyze_losses losses st en = Inr (Analysis r) \<and>
        length (pareto_analysis r) = length losses \<and>
        vital_few r = vital_prefix (pareto_analysis r) \<and>
        (\<forall>i < length (pareto_analysis r).
           80 \<le> cumulative_percentage (pareto_analysis r ! i) \<and>
           (\<forall>j < i. cumulative_percentage (pareto_analysis r ! j) < 80) \<longrightarrow>
           vital_few r = take (Suc i) (pareto_analysis r)) \<and>
        ((\<forall>e \<in> set (pareto_analysis r). cumulative_percentage e < 80) \<longrightarrow>
           vital_few r = pareto_analysis r))"
proof
  assume ne: "losses \<noteq> []"
  have len: "length (pareto_entries t c ls) = length ls" for t c ls
    by (induction ls arbitrary: c) simp_all
  show "\<exists>r. analyze_losses losses st en = Inr (Analysis r) \<and>
        length (pareto_analysis r) = length losses \<and>
        vital_few r = vital_prefix (pareto_analysis r) \<and>
        (\<forall>i < length (pareto_analysis r).
           80 \<le> cumulative_percentage (pareto_analysis r ! i) \<and>
           (\<forall>j < i. cumulative_percentage (pareto_analysis r ! j) < 80) \<longrightarrow>
           vital_few r = take (Suc i) (pareto_analysis r)) \<and>
        ((\<forall>e \<in> set (pareto_analysis r). cumulative_percentage e < 80) \<longrightarrow>
           vital_few r = pareto_analysis r)"
    unfolding analyze_losses_nonempty [OF ne]
    by (intro exI conjI, rule refl)
      (simp_all add: len vital_prefix_all vital_prefix_first)
qed


text \<open>
  Durations 50, 30 and 20: cumulative percentages 50, 80 and 100, and the first two
  entries are the vital few.
\<close>

theorem analyze_losses_vital_few_witness:
  "\<exists>r. analyze_losses
      [\<lparr>l_category = ''AVAILABILITY'', l_subcategory = ''BREAKDOWN'', l_reason = ''jam'',
         total_duration = 50, total_impact = 5, l_occurrences = 4\<rparr>,
       \<lparr>l_category = ''AVAILABILITY'', l_subcategory = ''SETUP'', l_reason = ''changeover'',
         total_duration = 30, total_impact = 3, l_occurrences = 2\<rparr>,
       \<lparr>l_category = ''QUALITY'', l_subcategory = ''SCRAP'', l_reason = ''burr'',
         total_duration = 20, total_impact = 2, l_occurrences = 9\<rparr>] 0 3600
      = Inr (Analysis r) \<and>
     map cumulative_percentage (pareto_analysis r) = [50, 80, 100] \<and>
     map reason (vital_few r) = [''jam'', ''changeover''] \<and>
     vital_few r = take 2 (pareto_analysis r)"
  using analyze_losses_vital_few [of
      "[\<lparr>l_category = ''AVAILABILITY'', l_subcategory = ''BREAKDOWN'', l_reason = ''jam'',
         total_duration = 50, total_impact = 5, l_occurrences = 4\<rparr>,
       \<lparr>l_category = ''AVAILABILITY'', l_subcategory = ''SETUP'', l_reason = ''changeover'',
         total_duration = 30, total_impact = 3, l_occurrences = 2\<rparr>,
       \<lparr>l_category = ''QUALITY'', l_subcategory = ''SCRAP'', l_reason = ''burr'',
         total_duration = 20, total_impact = 2, l_occurrences = 9\<rparr>]" 0 3600]
  by (simp add: analyze_losses_nonempty vital_prefix_def share_def py_round2_def
      round_half_even_def Let_def)

text \<open>Rounding to two decimals is monotone, and leaves 0 and 100 as they are.\<close>

lemma round_half_even_bounds:
  "\<lfloor>y\<rfloor> \<le> round_half_even y \<and> round_half_even y \<le> \<lfloor>y\<rfloor> + 1"
  by (simp add: round_half_even_def Let_def)

lemma round_half_even_mono:
  assumes "y \<le> y'"
  shows "round_half_even y \<le> round_half_even y'"
proof (cases "\<lfloor>y\<rfloor> = \<lfloor>y'\<rfloor>")
  case True
  with assms show ?thesis
    by (simp add: round_half_even_def Let_def)
next
  case False
  with assms have "\<lfloor>y\<rfloor> < \<lfloor>y'\<rfloor>"
    using floor_mono [of y y'] by simp
  then have "\<lfloor>y\<rfloor> + 1 \<le> \<lfloor>y'\<rfloor>" by simp
  with round_half_even_bounds [of y] round_half_even_bounds [of y'] show ?thesis
    by linarith
qed

lemma py_round2_mono: "x \<le> x' \<Longrightarrow> py_round2 x \<le> py_round2 x'"
  unfolding py_round2_def
  using round_half_even_mono [of "x * 100" "x' * 100"] by (simp add: divide_right_mono)

lemma py_round2_0: "py_round2 0 = 0"
  by (simp add: py_round2_def round_half_even_def)

lemma py_round2_100: "py_round2 100 = 100"
  by (simp add: py_round2_def round_half_even_def)

lemma share_nonneg: "0 \<le> total_duration l \<Longrightarrow> 0 \<le> share tot l"
  by (simp add: share_def)

lemma share_no_total: "tot \<le> 0 \<Longrightarrow> share tot l = 0"
  by (simp add: share_def)

lemma sum_share:
  "0 < tot \<Longrightarrow> sum_list (map (share tot) ls) = sum_list (map total_duration ls) / tot * 100"
  by (induction ls) (simp_all add: share_def field_simps)

lemma pareto_entries_lower:
  "\<forall>l \<in> set ls. 0 \<le> total_duration l \<Longrightarrow>
     \<forall>e \<in> set (pareto_entries tot c ls). py_round2 c \<le> cumulative_percentage e"
proof (induction ls arbitrary: c)
  case Nil
  show ?case by simp
next
  case (Cons l ls)
  from Cons.prems have s: "0 \<le> share tot l" by (simp add: share_nonneg)
  then have step: "py_round2 c \<le> py_round2 (c + share tot l)"
    by (intro py_round2_mono) simp
  from Cons.prems have "\<forall>l \<in> set ls. 0 \<le> total_duration l" by simp
  from Cons.IH [OF this, of "c + share tot l"] step show ?case
    by (auto intro: order_trans)
qed

lemma pareto_entries_sorted:
  "\<forall>l \<in> set ls. 0 \<le> total_duration l \<Longrightarrow>
     sorted (map cumulative_percentage (pareto_entries tot c ls))"
proof (induction ls arbitrary: c)
  case Nil
  show ?case by simp
next
  case (Cons l ls)
  from Cons.prems have rest: "\<forall>l \<in> set ls. 0 \<le> total_duration l" by simp
  from pareto_entries_lower [OF rest, of tot "c + share tot l"] Cons.IH [OF rest]
  show ?case by simp
qed

lemma pareto_entries_last:
  "ls \<noteq> [] \<Longrightarrow>
     cumulative_percentage (last (pareto_entries tot c ls))
       = py_round2 (c + sum_list (map (share tot) ls))"
proof (induction ls arbitrary: c)
  case Nil
  then show ?case by simp
next
  case (Cons l ls)
  show ?case
  proof (cases "ls = []")
    case True
    then show ?thesis by simp
  next
    case False
    then have "pareto_entries tot (c + share tot l) ls \<noteq> []"
      by (cases ls) simp_all
    with Cons.IH [OF False, of "c + share tot l"] show ?thesis
      by (simp add: add.assoc)
  qed
qed

lemma pareto_entries_no_total:
  "tot \<le> 0 \<Longrightarrow> \<forall>e \<in> set (pareto_entries tot 0 ls). cumulative_percentage e = 0"
  by (induction ls) (simp_all add: share_no_total py_round2_0)

text \<open>
  Claim C5, amended. For every non-empty list of losses with non-negative durations,
  the cumulative percentages of the Pareto analysis never decrease. When the total
  duration is positive the last one is 100; when the total duration is zero (the guard
  \<^verbatim>\<open>if total_loss_time > 0 else 0\<close>) every cumulative percentage is 0.
\<close>

theorem analyze_losses_cumulative:
  "losses \<noteq> [] \<and> (\<forall>l \<in> set losses. 0 \<le> total_duration l) \<longrightarrow>
     (\<exists>r. analyze_losses losses st en = Inr (Analysis r) \<and>
        sorted (map cumulative_percentage (pareto_analysis r)) \<and>
        (0 < total_loss_time r \<longrightarrow>
           cumulative_percentage (last (pareto_analysis r)) = 100) \<and>
        (total_loss_time r = 0 \<longrightarrow>
           (\<forall>e \<in> set (pareto_analysis r). cumulative_percentage e = 0)))"
proof
  assume h: "losses \<noteq> [] \<and> (\<forall>l \<in> set losses. 0 \<le> total_duration l)"
  then have ne: "losses \<noteq> []" and nn: "\<forall>l \<in> set losses. 0 \<le> total_duration l"
    by simp_all
  let ?tot = "sum_list (map total_duration losses)"
  let ?pa = "pareto_entries ?tot 0 losses"
  have srt: "sorted (map cumulative_percentage ?pa)"
    by (rule pareto_entries_sorted [OF nn])
  have full: "0 < ?tot \<longrightarrow> cumulative_percentage (last ?pa) = 100"
  proof
    assume pos: "0 < ?tot"
    then have "sum_list (map (share ?tot) losses) = 100"
      by (simp add: sum_share)
    then show "cumulative_percentage (last ?pa) = 100"
      by (simp add: pareto_entries_last [OF ne] py_round2_100)
  qed
  have none: "?tot = 0 \<longrightarrow> (\<forall>e \<in> set ?pa. cumulative_percentage e = 0)"
    using pareto_entries_no_total [of ?tot losses] by simp
  show "\<exists>r. analyze_losses losses st en = Inr (Analysis r) \<and>
        sorted (map cumulative_percentage (pareto_analysis r)) \<and>
        (0 < total_loss_time r \<longrightarrow>
           cumulative_percentage (last (pareto_analysis r)) = 100) \<and>
        (total_loss_time r = 0 \<longrightarrow>
           (\<forall>e \<in> set (pareto_analysis r). cumulative_percentage e = 0))"
    unfolding analyze_losses_nonempty [OF ne]
    by (intro exI conjI, rule refl) (insert srt full none, simp_all)
qed

text \<open>Durations 2 and 1: cumulative percentages 66.67 and 100.\<close>

theorem analyze_losses_cumulative_witness:
  "\<exists>r. analyze_losses
      [\<lparr>l_category = ''AVAILABILITY'', l_subcategory = ''BREAKDOWN'', l_reason = ''jam'',
         total_duration = 2, total_impact = 5, l_occurrences = 4\<rparr>,
       \<lparr>l_category = ''QUALITY'', l_subcategory = ''SCRAP'', l_reason = ''burr'',
         total_duration = 1, total_impact = 2, l_occurrences = 9\<rparr>] 0 3600
      = Inr (Analysis r) \<and>
     total_loss_time r = 3 \<and>
     map cumulative_percentage (pareto_analysis r) = [66.67, 100] \<and>
     sorted (map cumulative_percentage (pareto_analysis r)) \<and>
     cumulative_percentage (last (pareto_analysis r)) = 100"
  using analyze_losses_cumulative [of
      "[\<lparr>l_category = ''AVAILABILITY'', l_subcategory = ''BREAKDOWN'', l_reason = ''jam'',
         total_duration = 2, total_impact = 5, l_occurrences = 4\<rparr>,
       \<lparr>l_category = ''QUALITY'', l_subcategory = ''SCRAP'', l_reason = ''burr'',
         total_duration = 1, total_impact = 2, l_occurrences = 9\<rparr>]" 0 3600]
  by (simp add: analyze_losses_nonempty share_def py_round2_def round_half_even_def Let_def)

text \<open>
  Claim C5 as stated fails for a non-empty list of non-negative durations whose total is
  zero: one loss of duration 0 has the cumulative percentage 0, not 100.
\<close>

theorem analyze_losses_zero_total:
  "map cumulative_percentage (pareto_of (analyze_losses
      [\<lparr>l_category = ''PERFORMANCE'', l_subcategory = ''MINOR_STOPS'', l_reason = ''sensor'',
         total_duration = 0, total_impact = 0, l_occurrences = 3\<rparr>] 0 3600)) = [0] \<and>
   cumulative_percentage (last (pareto_of (analyze_losses
      [\<lparr>l_category = ''PERFORMANCE'', l_subcategory = ''MINOR_STOPS'', l_reason = ''sensor'',
         total_duration = 0, total_impact = 0, l_occurrences = 3\<rparr>] 0 3600))) \<noteq> 100"
  by (simp add: analyze_losses_nonempty pareto_of_def share_def py_round2_0)

section \<open>Properties of the trend forecast\<close>

lemma predict_oee_trend_short:
  "length data < 7 \<Longrightarrow>
     predict_oee_trend data k e = TrendError ''Insufficient data for trend analysis''"
  by (simp add: predict_oee_trend_def)

lemma predict_oee_trend_long:
  assumes "7 \<le> length data"
  shows "\<exists>r. predict_oee_trend data k e = TrendReport r \<and>
     daily_change r =
       (let x = map of_nat [0..<length data]; y = map daily_oee data;
            numerator = sum_list (map2 (\<lambda>a b. (a - mean_of x) * (b - mean_of y)) x y);
            denominator = sum_list (map (\<lambda>a. (a - mean_of x) ^ 2) x)
        in if denominator \<noteq> 0 then numerator / denominator else 0) \<and>
     trend r = (if daily_change r > 0.1 then ''IMPROVING''
                else if daily_change r < - 0.1 then ''DECLINING'' else ''STABLE'')"
proof -
  from assms have nl: "\<not> length data < 7" by simp
  show ?thesis
    unfolding predict_oee_trend_def Let_def if_not_P [OF nl]
    by (intro exI conjI, rule refl) (simp_all only: trend_report.simps)
qed

text \<open>
  The fitted slope of days that lie on a line is the slope of the line: the mean is
  linear, and the squared deviations of two or more day numbers do not all vanish.
\<close>

lemma zip_maps: "zip (map f xs) (map g xs) = map (\<lambda>i. (f i, g i)) xs"
  by (induction xs) simp_all

lemma mean_linear:
  assumes "xs \<noteq> []"
  shows "mean_of (map (\<lambda>i. b + a * f i) xs) = b + a * mean_of (map f xs)"
proof -
  have "sum_list (map (\<lambda>i. b + a * f i) xs)
          = of_nat (length xs) * b + a * sum_list (map f xs)"
    by (induction xs) (simp_all add: algebra_simps)
  moreover from assms have "of_nat (length xs) \<noteq> (0::real)" by simp
  ultimately show ?thesis
    by (simp add: mean_of_def field_simps)
qed

lemma spread_positive:
  assumes "2 \<le> n"
  shows "sum_list (map (\<lambda>a. (a - c) ^ 2) (map of_nat [0..<n])) \<noteq> (0::real)"
proof
  assume z: "sum_list (map (\<lambda>a. (a - c) ^ 2) (map of_nat [0..<n])) = (0::real)"
  have "\<forall>t \<in> set (map (\<lambda>a. (a - c) ^ 2) (map of_nat [0..<n])). t = (0::real)"
    using z by (subst (asm) sum_list_nonneg_eq_0_iff) auto
  then have all: "\<forall>i < n. (of_nat i - c) ^ 2 = (0::real)" by auto
  from assms have "0 < n" and "1 < n" by simp_all
  with all have "(of_nat 0 - c) ^ 2 = (0::real)" and "(of_nat 1 - c) ^ 2 = (0::real)"
    by blast+
  then show False by simp
qed

lemma linear_days_slope:
  assumes "7 \<le> n"
  shows "\<exists>r. predict_oee_trend (linear_days n b a) k e = TrendReport r \<and> daily_change r = a"
proof -
  let ?x = "map of_nat [0..<n] :: real list"
  let ?y = "map (\<lambda>i. b + a * of_nat i) [0..<n] :: real list"
  let ?xm = "mean_of ?x"
  have len: "length (linear_days n b a) = n" by (simp add: linear_days_def)
  have y: "map daily_oee (linear_days n b a) = ?y"
    by (simp add: linear_days_def comp_def)
  from assms have ne: "[0..<n] \<noteq> []" by simp
  have ym: "mean_of ?y = b + a * ?xm"
    using mean_linear [OF ne, of b a of_nat] by simp
  let ?den = "sum_list (map (\<lambda>a. (a - ?xm) ^ 2) ?x)"
  have num: "sum_list (map2 (\<lambda>u v. (u - ?xm) * (v - mean_of ?y)) ?x ?y) = a * ?den"
    unfolding ym zip_maps
    by (simp add: comp_def sum_list_const_mult [symmetric] power2_eq_square algebra_simps)
  from assms have den: "?den \<noteq> 0" by (intro spread_positive) simp
  from assms len have "7 \<le> length (linear_days n b a)" by simp
  from predict_oee_trend_long [OF this, of k e] obtain r where
    r: "predict_oee_trend (linear_days n b a) k e = TrendReport r"
    and d: "daily_change r =
       (let x = map of_nat [0..<length (linear_days n b a)];
            y = map daily_oee (linear_days n b a);
            numerator = sum_list (map2 (\<lambda>a b. (a - mean_of x) * (b - mean_of y)) x y);
            denominator = sum_list (map (\<lambda>a. (a - mean_of x) ^ 2) x)
        in if denominator \<noteq> 0 then numerator / denominator else 0)"
    by blast
  from d have "daily_change r = a"
    unfolding Let_def len y num using den by simp
  with r show ?thesis by blast
qed

text \<open>
  Claim C7. With fewer than 7 daily rows \<^verbatim>\<open>predict_oee_trend\<close> returns the
  insufficient-data result. With 7 or more it returns a report whose trend is IMPROVING
  when the fitted slope (the daily change) is above 0.1, DECLINING when it is below
  \<open>-0.1\<close>, STABLE otherwise. For 7 or more days on a line of slope \<open>a\<close> the fitted slope
  is \<open>a\<close>: slope 0.15 gives IMPROVING, \<open>-0.15\<close> DECLINING, 0.05 STABLE.
\<close>

theorem predict_oee_trend_classification:
  "(length data < 7 \<longrightarrow>
      predict_oee_trend data k e = TrendError ''Insufficient data for trend analysis'') \<and>
   (7 \<le> length data \<longrightarrow>
      (\<exists>r. predict_oee_trend data k e = TrendReport r \<and>
         trend r = (if daily_change r > 0.1 then ''IMPROVING''
                    else if daily_change r < - 0.1 then ''DECLINING'' else ''STABLE''))) \<and>
   (7 \<le> n \<longrightarrow>
      (\<exists>r. predict_oee_trend (linear_days n b a) k e = TrendReport r \<and>
         daily_change r = a \<and>
         trend r = (if a > 0.1 then ''IMPROVING''
                    else if a < - 0.1 then ''DECLINING'' else ''STABLE'')))"
proof (intro conjI impI)
  assume "length data < 7"
  then show "predict_oee_trend data k e = TrendError ''Insufficient data for trend analysis''"
    by (rule predict_oee_trend_short)
next
  assume "7 \<le> length data"
  from predict_oee_trend_long [OF this, of k e]
  show "\<exists>r. predict_oee_trend data k e = TrendReport r \<and>
         trend r = (if daily_change r > 0.1 then ''IMPROVING''
                    else if daily_change r < - 0.1 then ''DECLINING'' else ''STABLE'')"
    by blast
next
  assume n: "7 \<le> n"
  from linear_days_slope [OF n, of b a k e] obtain r where
    r: "predict_oee_trend (linear_days n b a) k e = TrendReport r" and d: "daily_change r = a"
    by blast
  from n have "7 \<le> length (linear_days n b a)" by (simp add: linear_days_def)
  from predict_oee_trend_long [OF this, of k e] r
  have "trend r = (if daily_change r > 0.1 then ''IMPROVING''
                    else if daily_change r < - 0.1 then ''DECLINING'' else ''STABLE'')"
    by auto
  with r d show "\<exists>r. predict_oee_trend (linear_days n b a) k e = TrendReport r \<and>
         daily_change r = a \<and>
         trend r = (if a > 0.1 then ''IMPROVING''
                    else if a < - 0.1 then ''DECLINING'' else ''STABLE'')"
    by auto
qed

text \<open>Six days, and seven days of slopes 0.15, \<open>-0.15\<close> and 0.05 from an OEE of 70.\<close>

theorem predict_oee_trend_classification_witness:
  "predict_oee_trend (linear_days 6 70 0.15) 7 0
     = TrendError ''Insufficient data for trend analysis'' \<and>
   (\<exists>r. predict_oee_trend (linear_days 7 70 0.15) 7 0 = TrendReport r \<and>
      daily_change r = 0.15 \<and> trend r = ''IMPROVING'') \<and>
   (\<exists>r. predict_oee_trend (linear_days 7 70 (- 0.15)) 7 0 = TrendReport r \<and>
      daily_change r = - 0.15 \<and> trend r = ''DECLINING'') \<and>
   (\<exists>r. predict_oee_trend (linear_days 7 70 0.05) 7 0 = TrendReport r \<and>
      daily_change r = 0.05 \<and> trend r = ''STABLE'')"
  using predict_oee_trend_classification [of "linear_days 6 70 0.15" 7 0 7 70 "0.15"]
    predict_oee_trend_classification [of "linear_days 6 70 0.15" 7 0 7 70 "- 0.15"]
    predict_oee_trend_classification [of "linear_days 6 70 0.15" 7 0 7 70 "0.05"]
  by (simp add: linear_days_def)

section \<open>Properties of the multivariate detector\<close>

lemma upt_5: "[0..<5] = [0, 1, 2, 3, 4]"
  by (simp add: upt_rec)

lemma scan_rows_append:
  "scan_rows mean inv_cov (ps @ qs) = scan_rows mean inv_cov ps @ scan_rows mean inv_cov qs"
  by (induction ps) (auto simp: Let_def)

lemma scan_rows_constant_quiet:
  "\<not> 15.09 < sqrt (dot (vec_mat (map2 (-) x mean) inv_cov) (map2 (-) x mean)) \<Longrightarrow>
     scan_rows mean inv_cov (map (\<lambda>i. (f i, x)) xs) = []"
  by (induction xs) (simp_all add: Let_def)

lemma scan_rows_sound:
  "obs \<in> set (scan_rows mean inv_cov ps) \<Longrightarrow>
     distance obs > 15.09 \<and>
     o_severity obs = (if distance obs > 20 then ''HIGH'' else ''MEDIUM'') \<and>
     (\<exists>(row, x) \<in> set ps.
        distance obs = sqrt (dot (vec_mat (map2 (-) x mean) inv_cov) (map2 (-) x mean)) \<and>
        o_timestamp obs = t_timestamp row \<and> o_asset_id obs = t_asset_id row \<and>
        parameters obs = [(''oee'', t_oee row), (''temperature'', Some (temperature row)),
                          (''pressure'', Some (pressure row)),
                          (''vibration'', Some (vibration row))])"
proof (induction ps)
  case Nil
  then show ?case by simp
next
  case (Cons p ps)
  obtain row x where p: "p = (row, x)" by (cases p)
  let ?d = "sqrt (dot (vec_mat (map2 (-) x mean) inv_cov) (map2 (-) x mean))"
  from Cons.prems consider
    (head) "15.09 < ?d" and
      "obs = \<lparr>o_timestamp = t_timestamp row, o_asset_id = t_asset_id row,
                 o_type = ''MULTIVARIATE'', distance = ?d,
                 o_severity = (if 20 < ?d then ''HIGH'' else ''MEDIUM''),
                 o_description = ''Multiple parameters showing unusual combination'',
                 parameters = [(''oee'', t_oee row),
                               (''temperature'', Some (temperature row)),
                               (''pressure'', Some (pressure row)),
                               (''vibration'', Some (vibration row))]\<rparr>"
    | (tail) "obs \<in> set (scan_rows mean inv_cov ps)"
    by (auto simp: p Let_def split: if_splits)
  then show ?case
  proof cases
    case head
    then show ?thesis by (simp add: p)
  next
    case tail
    from Cons.IH [OF tail] show ?thesis by auto
  qed
qed

text \<open>
  What holds of every observation \<^verbatim>\<open>detect_multivariate_anomalies\<close> emits: its distance
  is above 15.09, its severity is HIGH when the distance is above 20 and MEDIUM
  otherwise, and it has the timestamp and asset of a row of the data. The snapshot the
  code builds for it holds four values of that row, under the keys oee, temperature,
  pressure and vibration.
\<close>

lemma detect_multivariate_anomalies_emitted:
  "\<forall>obs \<in> set (detect_multivariate_anomalies pinv data).
     distance obs > 15.09 \<and>
     o_severity obs = (if distance obs > 20 then ''HIGH'' else ''MEDIUM'') \<and>
     (\<exists>row \<in> set data.
        o_timestamp obs = t_timestamp row \<and> o_asset_id obs = t_asset_id row \<and>
        parameters obs = [(''oee'', t_oee row), (''temperature'', Some (temperature row)),
                          (''pressure'', Some (pressure row)),
                          (''vibration'', Some (vibration row))])"
proof
  fix obs
  assume "obs \<in> set (detect_multivariate_anomalies pinv data)"
  then obtain mean inv_cov X where "obs \<in> set (scan_rows mean inv_cov (zip data X))"
    unfolding detect_multivariate_anomalies_def Let_def
    by (auto split: if_splits option.splits)
  from scan_rows_sound [OF this] show "distance obs > 15.09 \<and>
     o_severity obs = (if distance obs > 20 then ''HIGH'' else ''MEDIUM'') \<and>
     (\<exists>row \<in> set data.
        o_timestamp obs = t_timestamp row \<and> o_asset_id obs = t_asset_id row \<and>
        parameters obs = [(''oee'', t_oee row), (''temperature'', Some (temperature row)),
                          (''pressure'', Some (pressure row)),
                          (''vibration'', Some (vibration row))])"
    by (auto dest: set_zip_leftD)
qed


text \<open>
  The detector on \<^const>\<open>surge_data\<close>, step by step: the selected features, the column
  means, the filled matrix, its covariance, the inverse, and the distances (1/16 for a
  steady row, 255/16 for the last row).
\<close>

lemma sum_list_constant: "sum_list (map (\<lambda>i. c) xs) = of_nat (length xs) * (c::real)"
  by (induction xs) (simp_all add: algebra_simps)

lemma surge_selected:
  "map feature_values surge_data =
     map (\<lambda>i. [Some 80, Some 70, Some 5, Some 1, Some 10]) [0..<255]
       @ [[Some 80, Some 70, Some 5, Some 1, Some 11]]"
  by (simp add: surge_data_def steady_row_def surge_row_def feature_values_def comp_def)

lemma concat_singletons: "concat (map (\<lambda>i. [c]) xs) = map (\<lambda>i. c) xs"
  by (induction xs) simp_all

lemma column_mean_full:
  "column_mean (map (\<lambda>i. Some c) [0..<255] @ [Some d]) = Some ((255 * c + d) / 256)"
  by (simp add: column_mean_def comp_def concat_singletons mean_of_def sum_list_constant Let_def)

lemma surge_means:
  "map (\<lambda>j. column_mean (nth_column (map feature_values surge_data) j)) [0..<5] =
     [Some 80, Some 70, Some 5, Some 1, Some (2561 / 256)]"
  unfolding surge_selected upt_5
  by (simp add: nth_column_def comp_def column_mean_full)

lemma surge_filled:
  "fillna (map feature_values surge_data)
      (map (\<lambda>j. column_mean (nth_column (map feature_values surge_data) j)) [0..<5]) =
     map (\<lambda>i. [Some 80, Some 70, Some 5, Some 1, Some 10]) [0..<255]
       @ [[Some 80, Some 70, Some 5, Some 1, Some 11]]"
  unfolding surge_means unfolding surge_selected
  by (simp add: fillna_def comp_def)

lemma those_map_Some: "those (map (\<lambda>i. Some (f i)) xs) = Some (map f xs)"
  by (induction xs) simp_all

lemma surge_X:
  "those (map those (map (\<lambda>i. [Some 80, Some 70, Some 5, Some 1, Some 10]) [0..<255]
       @ [[Some 80, Some 70, Some 5, Some 1, Some (11::real)]])) =
     Some (map (\<lambda>i. [80, 70, 5, 1, 10]) [0..<255] @ [[80, 70, 5, 1, 11]])"
proof -
  have "map those (map (\<lambda>i. [Some 80, Some 70, Some 5, Some 1, Some 10]) [0..<255]
       @ [[Some 80, Some 70, Some 5, Some 1, Some (11::real)]])
     = map (\<lambda>i. Some i)
        (map (\<lambda>i. [80, 70, 5, 1, 10]) [0..<255] @ [[80, 70, 5, 1, 11]])"
    by (simp add: comp_def)
  then show ?thesis by (simp only: those_map_Some) simp
qed


lemma mean_two_level:
  "mean_of (map (\<lambda>i. c) [0..<255] @ [d]) = (255 * c + d) / 256"
  by (simp add: mean_of_def sum_list_constant)

lemma covariance_two_level:
  "covariance (map (\<lambda>i. c) [0..<255] @ [d]) (map (\<lambda>i. c') [0..<255] @ [d'])
     = (d - c) * (d' - c') / 256"
  unfolding covariance_def mean_two_level
  by (simp add: zip_maps sum_list_constant comp_def field_simps)

lemma surge_columns:
  "nth_column (map (\<lambda>i. [80, 70, 5, 1, 10]) [0..<255] @ [[80, 70, 5, 1, 11]]) 0
     = map (\<lambda>i. 80) [0..<255] @ [80::real]"
  "nth_column (map (\<lambda>i. [80, 70, 5, 1, 10]) [0..<255] @ [[80, 70, 5, 1, 11]]) 1
     = map (\<lambda>i. 70) [0..<255] @ [70::real]"
  "nth_column (map (\<lambda>i. [80, 70, 5, 1, 10]) [0..<255] @ [[80, 70, 5, 1, 11]]) 2
     = map (\<lambda>i. 5) [0..<255] @ [5::real]"
  "nth_column (map (\<lambda>i. [80, 70, 5, 1, 10]) [0..<255] @ [[80, 70, 5, 1, 11]]) 3
     = map (\<lambda>i. 1) [0..<255] @ [1::real]"
  "nth_column (map (\<lambda>i. [80, 70, 5, 1, 10]) [0..<255] @ [[80, 70, 5, 1, 11]]) 4
     = map (\<lambda>i. 10) [0..<255] @ [11::real]"
  by (simp_all add: nth_column_def comp_def)

lemma surge_mean:
  "map (\<lambda>j. mean_of (nth_column
       (map (\<lambda>i. [80, 70, 5, 1, 10]) [0..<255] @ [[80, 70, 5, 1, 11]]) j)) [0..<5]
     = [80, 70, 5, 1, 2561 / 256]"
  unfolding upt_5 list.map surge_columns mean_two_level by simp

lemma surge_cov:
  "cov_matrix (map (\<lambda>i. [80, 70, 5, 1, 10]) [0..<255] @ [[80, 70, 5, 1, 11]])
     = [[0, 0, 0, 0, 0], [0, 0, 0, 0, 0], [0, 0, 0, 0, 0], [0, 0, 0, 0, 0],
        [0, 0, 0, 0, 1 / 256]]"
  unfolding cov_matrix_def upt_5 list.map surge_columns covariance_two_level by simp

lemma surge_pinv:
  "reciprocal_pinv [[0, 0, 0, 0, 0], [0, 0, 0, 0, 0], [0, 0, 0, 0, 0], [0, 0, 0, 0, 0],
        [0, 0, 0, 0, 1 / 256]]
     = Some [[0, 0, 0, 0, 0], [0, 0, 0, 0, 0], [0, 0, 0, 0, 0], [0, 0, 0, 0, 0],
        [0, 0, 0, 0, 256]]"
  by (simp add: reciprocal_pinv_def)

text \<open>
  At the covariance of \<^const>\<open>surge_data\<close>, \<^const>\<open>reciprocal_pinv\<close> returns the
  Moore-Penrose pseudo-inverse: the four Penrose conditions hold.
\<close>

lemma surge_pinv_penrose:
  "reciprocal_pinv surge_covariance = Some surge_inverse \<and>
   mat_mul (mat_mul surge_covariance surge_inverse) surge_covariance = surge_covariance \<and>
   mat_mul (mat_mul surge_inverse surge_covariance) surge_inverse = surge_inverse \<and>
   transpose (mat_mul surge_covariance surge_inverse)
     = mat_mul surge_covariance surge_inverse \<and>
   transpose (mat_mul surge_inverse surge_covariance)
     = mat_mul surge_inverse surge_covariance"
  by (simp add: surge_covariance_def surge_inverse_def reciprocal_pinv_def mat_mul_def
      vec_mat_def dot_def nth_column_def upt_5 transpose.simps)

lemma surge_covariance_eq:
  "cov_matrix (map (\<lambda>i. [80, 70, 5, 1, 10]) [0..<255] @ [[80, 70, 5, 1, 11]])
     = surge_covariance"
  unfolding surge_covariance_def by (rule surge_cov)


lemma surge_quadratic_form:
  "dot (vec_mat (map2 (-) [80, 70, 5, 1, c] [80, 70, 5, 1, 2561 / 256])
      [[0, 0, 0, 0, 0], [0, 0, 0, 0, 0], [0, 0, 0, 0, 0], [0, 0, 0, 0, 0],
        [0, 0, 0, 0, 256]])
     (map2 (-) [80, 70, 5, 1, c] [80, 70, 5, 1, 2561 / 256])
   = 256 * (c - 2561 / 256) ^ 2"
  by (simp add: dot_def vec_mat_def upt_5 nth_column_def power2_eq_square)

lemma sqrt_steady: "sqrt (256 * (10 - 2561 / 256) ^ 2) = 1 / 16"
proof -
  have "256 * (10 - 2561 / 256) ^ 2 = ((1 / 16) ^ 2 :: real)"
    by (simp add: power2_eq_square)
  then show ?thesis by (simp only: real_sqrt_abs)
qed

lemma sqrt_surge: "sqrt (256 * (11 - 2561 / 256) ^ 2) = 255 / 16"
proof -
  have "256 * (11 - 2561 / 256) ^ 2 = ((255 / 16) ^ 2 :: real)"
    by (simp add: power2_eq_square)
  then show ?thesis by (simp only: real_sqrt_abs)
qed

lemma surge_result:
  "detect_multivariate_anomalies reciprocal_pinv surge_data =
     [\<lparr>o_timestamp = 15300, o_asset_id = ''A1'', o_type = ''MULTIVARIATE'',
       distance = 255 / 16, o_severity = ''MEDIUM'',
       o_description = ''Multiple parameters showing unusual combination'',
       parameters = [(''oee'', Some 80), (''temperature'', Some 70),
                     (''pressure'', Some 5), (''vibration'', Some 1)]\<rparr>]"
proof -
  let ?mean = "[80, 70, 5, 1, 2561 / 256] :: real list"
  let ?inv = "[[0, 0, 0, 0, 0], [0, 0, 0, 0, 0], [0, 0, 0, 0, 0], [0, 0, 0, 0, 0],
        [0, 0, 0, 0, 256]] :: real list list"
  have len: "\<not> length surge_data < 30" by (simp add: surge_data_def)
  have z: "zip surge_data (map (\<lambda>i. [80, 70, 5, 1, 10]) [0..<255] @ [[80, 70, 5, 1, 11]])
      = map (\<lambda>i. (steady_row i, [80, 70, 5, 1, 10])) [0..<255]
          @ [(surge_row, [80, 70, 5, 1, 11::real])]"
    by (simp add: surge_data_def zip_maps)
  have quiet: "scan_rows ?mean ?inv
      (map (\<lambda>i. (steady_row i, [80, 70, 5, 1, 10])) [0..<255]) = []"
  proof (rule scan_rows_constant_quiet)
    show "\<not> 15.09 < sqrt (dot (vec_mat (map2 (-) [80, 70, 5, 1, 10] ?mean) ?inv)
        (map2 (-) [80, 70, 5, 1, 10] ?mean))"
      unfolding surge_quadratic_form sqrt_steady by simp
  qed
  have loud: "scan_rows ?mean ?inv [(surge_row, [80, 70, 5, 1, 11])] =
     [\<lparr>o_timestamp = 15300, o_asset_id = ''A1'', o_type = ''MULTIVARIATE'',
       distance = 255 / 16, o_severity = ''MEDIUM'',
       o_description = ''Multiple parameters showing unusual combination'',
       parameters = [(''oee'', Some 80), (''temperature'', Some 70),
                     (''pressure'', Some 5), (''vibration'', Some 1)]\<rparr>]"
    unfolding scan_rows.simps Let_def surge_quadratic_form sqrt_surge
    by (simp add: surge_row_def)
  show ?thesis
    unfolding detect_multivariate_anomalies_def Let_def if_not_P [OF len]
      surge_filled surge_X option.case surge_mean surge_cov surge_pinv z scan_rows_append
      quiet loud
    by simp
qed


text \<open>
  On \<^const>\<open>surge_data\<close> one observation is emitted, for the last row, at distance
  \<open>255 / 16 = 15.9375\<close>.
\<close>

lemma detect_multivariate_anomalies_on_surge:
  "\<exists>obs. detect_multivariate_anomalies reciprocal_pinv surge_data = [obs] \<and>
     distance obs = 255 / 16 \<and> distance obs > 15.09 \<and> o_severity obs = ''MEDIUM'' \<and>
     o_timestamp obs = t_timestamp surge_row \<and> o_asset_id obs = t_asset_id surge_row \<and>
     parameters obs = [(''oee'', t_oee surge_row),
                       (''temperature'', Some (temperature surge_row)),
                       (''pressure'', Some (pressure surge_row)),
                       (''vibration'', Some (vibration surge_row))]"
  using detect_multivariate_anomalies_emitted [of reciprocal_pinv surge_data]
  by (simp add: surge_result surge_row_def)

text \<open>
  Claim C9 says that every emitted observation has a distance above 15.09, the severity
  HIGH above 20 and MEDIUM otherwise, and a parameter snapshot with the original values
  of all five features: oee, temperature, pressure, vibration and current. The code
  selects five features and measures the distance over the five, but the snapshot it
  writes lists four and leaves current out. On \<^const>\<open>surge_data\<close> the one observation
  emitted is for the last row; its snapshot has the keys oee, temperature, pressure and
  vibration and no key current, although the current of that row (11, against 10 in
  every other row) is what sets it apart.
\<close>

theorem detect_multivariate_anomalies_no_current:
  "map (\<lambda>obs. map fst (parameters obs))
       (detect_multivariate_anomalies reciprocal_pinv surge_data)
     = [[''oee'', ''temperature'', ''pressure'', ''vibration'']] \<and>
   map (\<lambda>obs. map_of (parameters obs) ''current'')
       (detect_multivariate_anomalies reciprocal_pinv surge_data) = [None] \<and>
   map o_timestamp (detect_multivariate_anomalies reciprocal_pinv surge_data)
     = [t_timestamp (last surge_data)] \<and>
   current (last surge_data) = Some 11"
proof -
  have "last surge_data = surge_row" by (simp add: surge_data_def)
  then show ?thesis by (simp add: surge_result surge_row_def)
qed

end
